theory Spec2Isabelle
  imports Complex_Main
begin

section \<open>The strategy base class (Base)\<close>

text \<open>
  JavaScript numbers are modelled as follows: the counters \<open>winCount\<close>, \<open>loseCount\<close>,
  \<open>consecutiveLosses\<close> and \<open>maximumConsecutiveLosses\<close> start at 0 and are only ever
  incremented, so they are natural numbers; amounts of money are reals. A JavaScript division
  whose divisor is 0 does not yield a finite number (it yields \<open>NaN\<close> or an infinity): \<open>js_div\<close>
  returns \<open>None\<close> there, so that a division by zero is visible in the result.
\<close>

definition js_div :: "real \<Rightarrow> real \<Rightarrow> real option" where
  "js_div a b = (if b = 0 then None else Some (a / b))"

text \<open>
  The fields of \<open>Base\<close> that its methods read or write. Positions are objects shared by
  reference, so \<open>openPositions\<close> holds references (addresses into a store of positions).
\<close>

record Base =
  symbol :: string
  openPositions :: "nat list"
  profitLoss :: real
  winCount :: nat
  loseCount :: nat
  showTrades :: bool
  consecutiveLosses :: nat
  maximumConsecutiveLosses :: nat
  minimumProfitLoss :: real

definition newBase :: "string \<Rightarrow> Base" where
  "newBase symbolName =
     \<lparr>symbol = symbolName, openPositions = [], profitLoss = 0, winCount = 0, loseCount = 0,
      showTrades = False, consecutiveLosses = 0, maximumConsecutiveLosses = 0,
      minimumProfitLoss = 99999\<rparr>"

definition getWinRate :: "'a Base_scheme \<Rightarrow> real option" where
  "getWinRate self =
     (if winCount self + loseCount self = 0 then Some 0
      else js_div (real (winCount self)) (real (winCount self + loseCount self)))"

text \<open>The object returned by \<open>getResults\<close>; its fields carry the suffix \<open>_res\<close>.\<close>

record Results =
  profitLoss_res :: real
  winCount_res :: nat
  loseCount_res :: nat
  winRate_res :: "real option"
  tradeCount_res :: nat
  maximumConsecutiveLosses_res :: nat
  minimumProfitLoss_res :: real

definition getResults :: "'a Base_scheme \<Rightarrow> Results" where
  "getResults self =
     \<lparr>profitLoss_res = profitLoss self,
      winCount_res = winCount self,
      loseCount_res = loseCount self,
      winRate_res = getWinRate self,
      tradeCount_res = winCount self + loseCount self,
      maximumConsecutiveLosses_res = maximumConsecutiveLosses self,
      minimumProfitLoss_res = minimumProfitLoss self\<rparr>"

subsection \<open>Settling expired positions\<close>

text \<open>
  The position classes (Call, Put) are collaborators outside this development; a position is
  used only through the four methods below, which are therefore parameters. \<open>close\<close> is the
  only one that changes the position object.
\<close>

record 'p PositionOps =
  getHasExpired :: "'p \<Rightarrow> real \<Rightarrow> bool"
  close :: "'p \<Rightarrow> real \<Rightarrow> real \<Rightarrow> 'p"
  getProfitLoss :: "'p \<Rightarrow> real"
  getInvestment :: "'p \<Rightarrow> real"

text \<open>\<open>xs.splice(i, 1)\<close>: removes the element at index \<open>i\<close>, nothing when there is none.\<close>

definition splice1 :: "'a list \<Rightarrow> nat \<Rightarrow> 'a list" where
  "splice1 xs i = take i xs @ drop (Suc i) xs"

text \<open>
  The callback of \<open>openPositionsCopy.forEach\<close> in \<open>closeExpiredPositions\<close>, on the state
  (the strategy, the store of position objects, \<open>expiredPositions\<close>).
\<close>

definition closeExpiredPosition ::
  "'p PositionOps \<Rightarrow> real \<Rightarrow> real \<Rightarrow> nat \<Rightarrow> nat \<Rightarrow>
   'a Base_scheme \<times> (nat \<Rightarrow> 'p) \<times> nat list \<Rightarrow>
   'a Base_scheme \<times> (nat \<Rightarrow> 'p) \<times> nat list" where
  "closeExpiredPosition ops price timestamp position index st =
     (case st of (self, store, expiredPositions) \<Rightarrow>
        if getHasExpired ops (store position) timestamp then
          let store1 = store(position := close ops (store position) price timestamp);
              self1 = self\<lparr>profitLoss := profitLoss self - getInvestment ops (store1 position)\<rparr>;
              pl = getProfitLoss ops (store1 position);
              self2 = self1\<lparr>profitLoss := profitLoss self1 + pl\<rparr>;
              self3 = (if pl > getInvestment ops (store1 position)
                       then self2\<lparr>winCount := winCount self2 + 1, consecutiveLosses := 0\<rparr>
                       else self2);
              self4 = (if pl = 0
                       then self3\<lparr>loseCount := loseCount self3 + 1,
                                  consecutiveLosses := consecutiveLosses self3 + 1\<rparr>
                       else self3);
              self5 = (if pl < minimumProfitLoss self4
                       then self4\<lparr>minimumProfitLoss := pl\<rparr>
                       else self4);
              self6 = (if consecutiveLosses self5 > maximumConsecutiveLosses self5
                       then self5\<lparr>maximumConsecutiveLosses := consecutiveLosses self5\<rparr>
                       else self5)
          in (self6\<lparr>openPositions := splice1 (openPositions self6) index\<rparr>,
              store1,
              expiredPositions @ [position])
        else st)"

fun forEachOpenPosition ::
  "'p PositionOps \<Rightarrow> real \<Rightarrow> real \<Rightarrow> nat list \<Rightarrow> nat \<Rightarrow>
   'a Base_scheme \<times> (nat \<Rightarrow> 'p) \<times> nat list \<Rightarrow>
   'a Base_scheme \<times> (nat \<Rightarrow> 'p) \<times> nat list" where
  "forEachOpenPosition ops price timestamp [] index st = st"
| "forEachOpenPosition ops price timestamp (position # rest) index st =
     forEachOpenPosition ops price timestamp rest (Suc index)
       (closeExpiredPosition ops price timestamp position index st)"

text \<open>
  \<open>closeExpiredPositions\<close> iterates over a copy of \<open>openPositions\<close> and returns
  \<open>expiredPositions\<close>; the updated strategy and store are returned with it.
\<close>

definition closeExpiredPositions ::
  "'p PositionOps \<Rightarrow> real \<Rightarrow> real \<Rightarrow> 'a Base_scheme \<Rightarrow> (nat \<Rightarrow> 'p) \<Rightarrow>
   'a Base_scheme \<times> (nat \<Rightarrow> 'p) \<times> nat list" where
  "closeExpiredPositions ops price timestamp self store =
     (let openPositionsCopy = openPositions self
      in forEachOpenPosition ops price timestamp openPositionsCopy 0 (self, store, []))"

text \<open>
  A position class for the examples: a position is (expiry time, investment, payout, closed),
  it has expired when the time is at or after its expiry, and its profit/loss is its payout.
\<close>

definition examplePositionOps :: "(real \<times> real \<times> real \<times> bool) PositionOps" where
  "examplePositionOps =
     \<lparr>getHasExpired = (\<lambda>p t. fst p \<le> t),
      close = (\<lambda>p price t. (fst p, fst (snd p), fst (snd (snd p)), True)),
      getProfitLoss = (\<lambda>p. fst (snd (snd p))),
      getInvestment = (\<lambda>p. fst (snd p))\<rparr>"

definition exampleStore :: "nat \<Rightarrow> real \<times> real \<times> real \<times> bool" where
  "exampleStore a = (if a = 0 then (5, 10, 4, False) else (100, 10, 0, False))"

subsection \<open>Abstract methods of Base\<close>

datatype js_error = Thrown string

text \<open>
  A data point is an object whose properties are numbers; a property that is absent reads as
  \<open>undefined\<close>, here \<open>None\<close>. (\<open>NaN\<close> values are not modelled.)
\<close>

type_synonym DataPoint = "string \<rightharpoonup> real"

text \<open>
  \<open>Base.prototype.tick\<close> and \<open>Base.prototype.backtest\<close> only throw: they are the abstract
  methods a concrete strategy is expected to supply.
\<close>

definition Base_tick :: "'a Base_scheme \<Rightarrow> DataPoint \<Rightarrow> js_error + 'a Base_scheme" where
  "Base_tick self dataPoint = Inl (Thrown ''tick() not implemented.'')"

definition Base_backtest ::
  "'a Base_scheme \<Rightarrow> DataPoint list \<Rightarrow> real \<Rightarrow> real \<Rightarrow> js_error + 'a Base_scheme" where
  "Base_backtest self data investment profitability = Inl (Thrown ''backtest() not implemented.'')"

section \<open>The ReversalsCombined strategy\<close>

text \<open>
  Truthiness and the comparison operators of JavaScript on a number or \<open>undefined\<close>:
  \<open>undefined\<close> and 0 are falsy, and every comparison with \<open>undefined\<close> is false.
\<close>

definition truthy :: "real option \<Rightarrow> bool" where
  "truthy v = (case v of None \<Rightarrow> False | Some x \<Rightarrow> x \<noteq> 0)"

definition js_lt :: "real option \<Rightarrow> real option \<Rightarrow> bool" where
  "js_lt a b = (case a of None \<Rightarrow> False | Some x \<Rightarrow> (case b of None \<Rightarrow> False | Some y \<Rightarrow> x < y))"

definition js_gt :: "real option \<Rightarrow> real option \<Rightarrow> bool" where
  "js_gt a b = (case a of None \<Rightarrow> False | Some x \<Rightarrow> (case b of None \<Rightarrow> False | Some y \<Rightarrow> x > y))"

definition js_le :: "real option \<Rightarrow> real option \<Rightarrow> bool" where
  "js_le a b = (case a of None \<Rightarrow> False | Some x \<Rightarrow> (case b of None \<Rightarrow> False | Some y \<Rightarrow> x \<le> y))"

definition js_ge :: "real option \<Rightarrow> real option \<Rightarrow> bool" where
  "js_ge a b = (case a of None \<Rightarrow> False | Some x \<Rightarrow> (case b of None \<Rightarrow> False | Some y \<Rightarrow> x \<ge> y))"

text \<open>
  One configuration of the strategy. \<open>configuration.ema200\<close>, \<open>.ema100\<close>, \<open>.ema50\<close> and
  \<open>.sma13\<close> are used for their truthiness only; \<open>.rsi\<close>, \<open>.prChannel\<close> and
  \<open>.trendPrChannel\<close> are absent or objects naming data point properties. The fields carry
  the suffix \<open>_js\<close>, the sub-objects' fields the name of the sub-object as a prefix.
\<close>

record RsiOption =
  rsi_rsi :: string
  rsi_overbought :: real
  rsi_oversold :: real

record PrChannelOption =
  prChannel_upper :: string
  prChannel_lower :: string

record TrendPrChannelOption =
  trendPrChannel_regression :: string

record StrategyConfiguration =
  ema200_js :: bool
  ema100_js :: bool
  ema50_js :: bool
  sma13_js :: bool
  rsi_js :: "RsiOption option"
  prChannel_js :: "PrChannelOption option"
  trendPrChannel_js :: "TrendPrChannelOption option"

text \<open>The strategy object: \<open>Base\<close> extended with \<open>configurations\<close>.\<close>

record ReversalsCombined = Base +
  configurations :: "StrategyConfiguration list"


text \<open>
  The block that \<open>backtest\<close> repeats for the pairs (ema200, ema100), (ema100, ema50) and
  (ema50, sma13), on the flags (\<open>putThisConfiguration\<close>, \<open>callThisConfiguration\<close>): both
  flags are cleared when either value is missing or 0, the put flag is cleared when the
  longer average is below the shorter one, the call flag when it is above.
\<close>

definition movingAverageBlock :: "real option \<Rightarrow> real option \<Rightarrow> bool \<times> bool \<Rightarrow> bool \<times> bool" where
  "movingAverageBlock longer shorter flags =
     (case flags of (putThisConfiguration, callThisConfiguration) \<Rightarrow>
        let put1 = (if \<not> truthy longer \<or> \<not> truthy shorter then False else putThisConfiguration);
            call1 = (if \<not> truthy longer \<or> \<not> truthy shorter then False else callThisConfiguration);
            put2 = (if put1 \<and> js_lt longer shorter then False else put1);
            call2 = (if call1 \<and> js_gt longer shorter then False else call1)
        in (put2, call2))"

definition rsiBlock :: "RsiOption \<Rightarrow> DataPoint \<Rightarrow> bool \<times> bool \<Rightarrow> bool \<times> bool" where
  "rsiBlock r dataPoint flags =
     (case flags of (putThisConfiguration, callThisConfiguration) \<Rightarrow>
        (case dataPoint (rsi_rsi r) of
           Some v \<Rightarrow>
             (if putThisConfiguration \<and> v \<le> rsi_overbought r then False else putThisConfiguration,
              if callThisConfiguration \<and> v \<ge> rsi_oversold r then False else callThisConfiguration)
         | None \<Rightarrow> (False, False)))"

definition prChannelBlock :: "PrChannelOption \<Rightarrow> DataPoint \<Rightarrow> bool \<times> bool \<Rightarrow> bool \<times> bool" where
  "prChannelBlock c dataPoint flags =
     (case flags of (putThisConfiguration, callThisConfiguration) \<Rightarrow>
        if truthy (dataPoint (prChannel_upper c)) \<and> truthy (dataPoint (prChannel_lower c)) then
          (if putThisConfiguration \<and>
              (\<not> truthy (dataPoint (prChannel_upper c)) \<or>
               js_le (dataPoint ''high'') (dataPoint (prChannel_upper c)))
           then False else putThisConfiguration,
           if callThisConfiguration \<and>
              (\<not> truthy (dataPoint (prChannel_lower c)) \<or>
               js_ge (dataPoint ''low'') (dataPoint (prChannel_lower c)))
           then False else callThisConfiguration)
        else (False, False))"

definition trendPrChannelBlock ::
  "TrendPrChannelOption \<Rightarrow> DataPoint option \<Rightarrow> DataPoint \<Rightarrow> bool \<times> bool \<Rightarrow> bool \<times> bool" where
  "trendPrChannelBlock t previousDataPoint dataPoint flags =
     (case flags of (putThisConfiguration, callThisConfiguration) \<Rightarrow>
        (case previousDataPoint of
           None \<Rightarrow> (False, False)
         | Some previous \<Rightarrow>
             if truthy (dataPoint (trendPrChannel_regression t)) \<and>
                truthy (previous (trendPrChannel_regression t)) then
               (if putThisConfiguration \<and>
                   js_gt (dataPoint (trendPrChannel_regression t)) (previous (trendPrChannel_regression t))
                then False else putThisConfiguration,
                if callThisConfiguration \<and>
                   js_lt (dataPoint (trendPrChannel_regression t)) (previous (trendPrChannel_regression t))
                then False else callThisConfiguration)
             else (False, False)))"

text \<open>
  The body of \<open>self.configurations.forEach\<close> up to the last two assignments: the flags
  (\<open>putThisConfiguration\<close>, \<open>callThisConfiguration\<close>) of one configuration on one data point.
\<close>

definition configurationFlags ::
  "DataPoint option \<Rightarrow> DataPoint \<Rightarrow> StrategyConfiguration \<Rightarrow> bool \<times> bool" where
  "configurationFlags previousDataPoint dataPoint configuration =
     (let f0 = (True, True);
          f1 = (if ema200_js configuration \<and> ema100_js configuration
                then movingAverageBlock (dataPoint ''ema200'') (dataPoint ''ema100'') f0 else f0);
          f2 = (if ema100_js configuration \<and> ema50_js configuration
                then movingAverageBlock (dataPoint ''ema100'') (dataPoint ''ema50'') f1 else f1);
          f3 = (if ema50_js configuration \<and> sma13_js configuration
                then movingAverageBlock (dataPoint ''ema50'') (dataPoint ''sma13'') f2 else f2);
          f4 = (case rsi_js configuration of
                  None \<Rightarrow> f3 | Some r \<Rightarrow> rsiBlock r dataPoint f3);
          f5 = (case prChannel_js configuration of
                  None \<Rightarrow> f4 | Some c \<Rightarrow> prChannelBlock c dataPoint f4);
          f6 = (case trendPrChannel_js configuration of
                  None \<Rightarrow> f5 | Some t \<Rightarrow> trendPrChannelBlock t previousDataPoint dataPoint f5)
      in f6)"

text \<open>\<open>self.configurations.forEach\<close>, on (\<open>putNextTick\<close>, \<open>callNextTick\<close>).\<close>

fun forEachConfiguration ::
  "DataPoint option \<Rightarrow> DataPoint \<Rightarrow> StrategyConfiguration list \<Rightarrow> bool \<times> bool \<Rightarrow> bool \<times> bool" where
  "forEachConfiguration previousDataPoint dataPoint [] next = next"
| "forEachConfiguration previousDataPoint dataPoint (configuration # rest) next =
     forEachConfiguration previousDataPoint dataPoint rest
       (fst next \<or> fst (configurationFlags previousDataPoint dataPoint configuration),
        snd next \<or> snd (configurationFlags previousDataPoint dataPoint configuration))"

text \<open>What \<open>backtest\<close> writes with \<open>console.log\<close>.\<close>

datatype ConsoleLine = PUT_at "real option" | CALL_at "real option" | ResultsLine Results

text \<open>
  The callback of \<open>data.forEach\<close> in \<open>backtest\<close>, on the state (the strategy,
  \<open>previousDataPoint\<close>, the console). \<open>ReversalsCombined\<close> defines \<open>backtest\<close> only, so
  \<open>self.tick\<close> is the \<open>tick\<close> it inherits from \<open>Base\<close>. The hour of day that
  \<open>new Date(timestamp).getHours()\<close> gives depends on the local time zone and is a parameter;
  the hour of an absent timestamp is \<open>NaN\<close>, which is in no range. An exception ends the
  run; what the console holds by then stays written, so it is returned with the exception.
\<close>

definition dataPointCallback ::
  "(real \<Rightarrow> int) \<Rightarrow> DataPoint \<Rightarrow> ReversalsCombined \<times> DataPoint option \<times> ConsoleLine list \<Rightarrow>
   (js_error \<times> ConsoleLine list) + (ReversalsCombined \<times> DataPoint option \<times> ConsoleLine list)" where
  "dataPointCallback getHours dataPoint st =
     (case st of (self, previousDataPoint, console) \<Rightarrow>
        let timestampHour = map_option getHours (dataPoint ''timestamp'') in
        (case Base_tick self dataPoint of
           Inl e \<Rightarrow> Inl (e, console)
         | Inr self1 \<Rightarrow>
             if (case timestampHour of None \<Rightarrow> False | Some h \<Rightarrow> h \<ge> 0 \<and> h < 7) then
               Inr (self1, Some dataPoint, console)
             else
               let next = forEachConfiguration previousDataPoint dataPoint
                            (configurations self1) (False, False);
                   putNextTick = fst next;
                   callNextTick = snd next;
                   console1 = (if putNextTick
                               then console @ [PUT_at (map_option (\<lambda>t. t + 1000) (dataPoint ''timestamp''))]
                               else console);
                   console2 = (if callNextTick
                               then console1 @ [CALL_at (map_option (\<lambda>t. t + 1000) (dataPoint ''timestamp''))]
                               else console1)
               in Inr (self1, Some dataPoint, console2)))"

fun forEachDataPoint ::
  "(real \<Rightarrow> int) \<Rightarrow> DataPoint list \<Rightarrow> ReversalsCombined \<times> DataPoint option \<times> ConsoleLine list \<Rightarrow>
   (js_error \<times> ConsoleLine list) + (ReversalsCombined \<times> DataPoint option \<times> ConsoleLine list)" where
  "forEachDataPoint getHours [] st = Inr st"
| "forEachDataPoint getHours (dataPoint # rest) st =
     (case dataPointCallback getHours dataPoint st of
        Inl e \<Rightarrow> Inl e
      | Inr st1 \<Rightarrow> forEachDataPoint getHours rest st1)"

text \<open>
  \<open>ReversalsCombined.prototype.backtest\<close>: the console it has written, and how it ended:
  with an exception, or with the strategy after the run.
\<close>

definition backtest ::
  "(real \<Rightarrow> int) \<Rightarrow> ReversalsCombined \<Rightarrow> DataPoint list \<Rightarrow> real \<Rightarrow> real \<Rightarrow>
   ConsoleLine list \<times> (js_error + ReversalsCombined)" where
  "backtest getHours self data investment profitability =
     (case forEachDataPoint getHours data (self, None, []) of
        Inl (e, console) \<Rightarrow> (console, Inl e)
      | Inr (self1, previousDataPoint, console) \<Rightarrow>
          (console @ [ResultsLine (getResults self1)], Inr self1))"


definition trendConfiguration :: StrategyConfiguration where
  "trendConfiguration =
     \<lparr>ema200_js = True, ema100_js = True, ema50_js = True, sma13_js = True,
      rsi_js = None, prChannel_js = None, trendPrChannel_js = None\<rparr>"

definition fallingDataPoint :: DataPoint where
  "fallingDataPoint =
     [''timestamp'' \<mapsto> 0, ''ema200'' \<mapsto> 4, ''ema100'' \<mapsto> 3, ''ema50'' \<mapsto> 2, ''sma13'' \<mapsto> 1]"

definition risingDataPoint :: DataPoint where
  "risingDataPoint =
     [''timestamp'' \<mapsto> 0, ''ema200'' \<mapsto> 1, ''ema100'' \<mapsto> 2, ''ema50'' \<mapsto> 3, ''sma13'' \<mapsto> 4]"

section \<open>The optimizer (optimizer.cpp)\<close>

text \<open>
  Doubles are modelled as reals. An exception is an error value; so is undefined behaviour
  that the code can reach (a read or write outside a vector or an allocated array).
\<close>

datatype cpp_error =
    RuntimeError  \<comment> \<open>\<open>std::runtime_error\<close>, thrown by \<open>loadData\<close>\<close>
  | OutOfRange    \<comment> \<open>\<open>std::out_of_range\<close>, thrown by \<open>std::map::at\<close>\<close>
  | BadGet        \<comment> \<open>\<open>boost::bad_get\<close>, thrown by \<open>boost::get\<close>\<close>
  | OutOfBounds   \<comment> \<open>an index outside a vector or an allocated array\<close>

text \<open>
  \<open>std::map::operator[]\<close>: the value of the key; a key that is absent is first inserted
  with the default value, 0.
\<close>

definition subscript :: "('k \<rightharpoonup> 'v::zero) \<Rightarrow> 'k \<Rightarrow> 'v \<times> ('k \<rightharpoonup> 'v)" where
  "subscript m k = (case m k of Some v \<Rightarrow> (v, m) | None \<Rightarrow> (0, m(k \<mapsto> 0)))"

text \<open>
  The members of \<open>Optimizer\<close> that the functions below read or write (the others are only
  handed to the database and to the strategy factory). \<open>data\<close> is an array of row pointers:
  \<open>None\<close> is a row that was never allocated, and within a row \<open>None\<close> is a cell that was
  never written.
\<close>

record Optimizer =
  dataIndex :: "string \<rightharpoonup> int"
  dataCount :: int
  data :: "real option list option list"

definition newOptimizer :: Optimizer where
  "newOptimizer = \<lparr>dataIndex = Map.empty, dataCount = 0, data = []\<rparr>"

subsection \<open>loadData\<close>

text \<open>
  The storage collaborator is a parameter: \<open>count\<close> is what the count query returns for the
  symbol (negative when the query fails) and \<open>documents\<close> is what the cursor yields, in
  timestamp order. Of a document only its \<open>data\<close> subdocument is read: \<open>Some\<close> of its
  fields in iteration order, or \<open>None\<close> when the document has none. \<open>dataPropertyCount\<close>
  is what \<open>getDataPropertyCount\<close> returns (it depends on \<open>getStudies\<close>, which is not part of
  this file).
\<close>

type_synonym Document = "(string \<times> real) list option"

text \<open>The inner loop, over the fields of the \<open>data\<close> subdocument of one row.\<close>

fun loadProperties ::
  "int \<Rightarrow> (string \<times> real) list \<Rightarrow> nat \<Rightarrow> real option list \<times> (string \<rightharpoonup> int) \<Rightarrow>
   cpp_error + real option list \<times> (string \<rightharpoonup> int)" where
  "loadProperties dataCount' [] propertyIndex st = Inr st"
| "loadProperties dataCount' ((propertyName, propertyValue) # rest) propertyIndex (row, dataIndex') =
     (if propertyIndex < length row then
        loadProperties dataCount' rest (Suc propertyIndex)
          (row[propertyIndex := Some propertyValue],
           if dataCount' = 0 then dataIndex'(propertyName \<mapsto> int propertyIndex) else dataIndex')
      else Inl OutOfBounds)"

text \<open>The outer loop, over the documents of the cursor.\<close>

fun loadRows :: "nat \<Rightarrow> Document list \<Rightarrow> nat \<Rightarrow> Optimizer \<Rightarrow> cpp_error + Optimizer" where
  "loadRows dataPropertyCount [] dataPointIndex self = Inr self"
| "loadRows dataPropertyCount (document # rest) dataPointIndex self =
     (if dataPointIndex < length (data self) then
        (case (case document of
                 None \<Rightarrow> Inr (replicate dataPropertyCount None, dataIndex self)
               | Some properties \<Rightarrow>
                   loadProperties (dataCount self) properties 0
                     (replicate dataPropertyCount None, dataIndex self)) of
           Inl e \<Rightarrow> Inl e
         | Inr (row, dataIndex') \<Rightarrow>
             loadRows dataPropertyCount rest (Suc dataPointIndex)
               (self\<lparr>data := (data self)[dataPointIndex := Some row], dataIndex := dataIndex'\<rparr>))
      else Inl OutOfBounds)"

definition loadData :: "nat \<Rightarrow> int \<Rightarrow> Document list \<Rightarrow> Optimizer \<Rightarrow> cpp_error + Optimizer" where
  "loadData dataPropertyCount count documents self =
     (let self1 = self\<lparr>dataCount := count\<rparr> in
      if dataCount self1 < 0 then Inl RuntimeError
      else loadRows dataPropertyCount documents 0
             (self1\<lparr>data := replicate (nat (dataCount self1)) None\<rparr>))"

subsection \<open>optimize\<close>

text \<open>\<open>v[i] = x\<close> on a \<open>std::vector\<close>: defined only for an index below the size.\<close>

definition vector_assign :: "'a list \<Rightarrow> nat \<Rightarrow> 'a \<Rightarrow> cpp_error + 'a list" where
  "vector_assign v i x = (if i < length v then Inr (v[i := x]) else Inl OutOfBounds)"

text \<open>
  The configuration of one strategy instance: column positions and thresholds. A new
  \<open>Configuration\<close> has every member 0. (\<open>timestamp\<close>, \<open>open\<close> and \<open>close\<close> carry the suffix \<open>_column\<close>.)
\<close>

record Configuration =
  timestamp_column :: int
  open_column :: int
  high :: int
  low :: int
  close_column :: int
  sma13 :: int
  ema50 :: int
  ema100 :: int
  ema200 :: int
  rsi :: int
  stochasticD :: int
  stochasticK :: int
  prChannelUpper :: int
  prChannelLower :: int
  rsiOverbought :: real
  rsiOversold :: real
  stochasticOverbought :: real
  stochasticOversold :: real

definition newConfiguration :: Configuration where
  "newConfiguration =
     \<lparr>timestamp_column = 0, open_column = 0, high = 0, low = 0, close_column = 0, sma13 = 0,
      ema50 = 0, ema100 = 0, ema200 = 0, rsi = 0, stochasticD = 0, stochasticK = 0,
      prChannelUpper = 0, prChannelLower = 0, rsiOverbought = 0, rsiOversold = 0,
      stochasticOverbought = 0, stochasticOversold = 0\<rparr>"

text \<open>
  The first loop of \<open>optimize\<close>, on the vector \<open>strategies\<close>; \<open>create\<close> stands for
  \<open>OptimizationStrategyFactory::create\<close> with the optimizer's own arguments.
\<close>

fun prepareStrategies ::
  "(Configuration \<Rightarrow> 's) \<Rightarrow> Configuration list \<Rightarrow> nat \<Rightarrow> 's list \<Rightarrow> cpp_error + 's list" where
  "prepareStrategies create [] i strategies = Inr strategies"
| "prepareStrategies create (configuration # rest) i strategies =
     (case vector_assign strategies i (create configuration) of
        Inl e \<Rightarrow> Inl e
      | Inr strategies1 \<Rightarrow> prepareStrategies create rest (Suc i) strategies1)"

text \<open>
  The second loop of \<open>optimize\<close>, from the counter \<open>i\<close>, on the vector \<open>strategies\<close> and
  the percentages that the progress line has printed. \<open>strategyBacktest\<close> stands for the
  \<open>backtest\<close> method of the strategy class: it takes the strategy, the row \<open>data[i]\<close>,
  \<open>investment\<close> and \<open>profitability\<close>, and returns the strategy after the call. The tasks of
  one data point work on different strategies, so the pool's order does not matter. After
  the pool has drained, the progress line increments \<open>i\<close> (\<open>++i\<close>) and prints the percentage,
  and the loop header increments \<open>i\<close> again (\<open>i++\<close>).
\<close>

function optimizeTicks ::
  "('s \<Rightarrow> real option list option \<Rightarrow> real \<Rightarrow> real \<Rightarrow> 's) \<Rightarrow> Optimizer \<Rightarrow> real \<Rightarrow> real \<Rightarrow>
   int \<Rightarrow> 's list \<Rightarrow> real list \<Rightarrow> cpp_error + 's list \<times> real list" where
  "optimizeTicks strategyBacktest self investment profitability i strategies progress =
     (if i < dataCount self then
        (if strategies \<noteq> [] \<and> (i < 0 \<or> nat i \<ge> length (data self)) then Inl OutOfBounds
         else optimizeTicks strategyBacktest self investment profitability ((i + 1) + 1)
                (map (\<lambda>strategy. strategyBacktest strategy (data self ! nat i) investment profitability)
                   strategies)
                (progress @ [real_of_int (i + 1) / real_of_int (dataCount self) * 100]))
      else Inr (strategies, progress))"
  by pat_completeness auto
termination
  by (relation "measure (\<lambda>(strategyBacktest, self, investment, profitability, i, strategies, progress).
                  nat (dataCount self - i))") auto

declare optimizeTicks.simps [simp del]

text \<open>\<open>optimize\<close>: the strategies after the run and the percentages printed by the data loop.\<close>

definition optimize ::
  "(Configuration \<Rightarrow> 's) \<Rightarrow> ('s \<Rightarrow> real option list option \<Rightarrow> real \<Rightarrow> real \<Rightarrow> 's) \<Rightarrow>
   Optimizer \<Rightarrow> Configuration list \<Rightarrow> real \<Rightarrow> real \<Rightarrow> cpp_error + 's list \<times> real list" where
  "optimize create strategyBacktest self configurations' investment profitability =
     (case prepareStrategies create configurations' 0 [] of
        Inl e \<Rightarrow> Inl e
      | Inr strategies \<Rightarrow>
          optimizeTicks strategyBacktest self investment profitability 0 strategies [])"

text \<open>
  Examples: a strategy class that records the rows its \<open>backtest\<close> is given, and an optimizer
  that holds three loaded rows.
\<close>

definition newRecorder :: "Configuration \<Rightarrow> real option list option list" where
  "newRecorder configuration = []"

definition recordingBacktest ::
  "real option list option list \<Rightarrow> real option list option \<Rightarrow> real \<Rightarrow> real \<Rightarrow>
   real option list option list" where
  "recordingBacktest strategy row investment profitability = strategy @ [row]"

definition threeRows :: Optimizer where
  "threeRows =
     \<lparr>dataIndex = Map.empty, dataCount = 3,
      data = [Some [Some 10], Some [Some 20], Some [Some 30]]\<rparr>"

subsection \<open>prepareData\<close>

text \<open>
  A \<open>Tick\<close> is a \<open>std::map\<close> from property names to doubles. Ticks are heap objects handled
  through pointers: the store maps an address to the tick it holds, and vectors of
  \<open>Tick*\<close> are lists of addresses. The caller's vector is taken to hold distinct addresses
  of live ticks.
\<close>

type_synonym Tick = "string \<rightharpoonup> real"

text \<open>
  The study classes are not part of this file. A study is used through \<open>setData\<close> and
  \<open>tick\<close>, which compute on the ticks of the window and the study's private state, and
  through \<open>getTickOutputs\<close>, whose map is iterated in key order.
\<close>

record 's Study =
  studyState :: 's
  studyTick :: "'s \<Rightarrow> Tick list \<Rightarrow> 's"
  getTickOutputs :: "'s \<Rightarrow> (string \<times> real) list"

text \<open>
  The state of \<open>prepareData\<close>: the store of ticks, the vector \<open>cumulativeTicks\<close>, the
  studies, the addresses passed to \<open>delete\<close>, and the batches that \<open>saveTicks\<close> handed to
  a bulk insert (the code ignores whether the database accepted them).
\<close>

record 's PrepareState =
  tickStore :: "nat \<Rightarrow> Tick"
  cumulativeTicks :: "nat list"
  studies :: "'s Study list"
  deleted :: "nat list"
  saved :: "nat list list"

text \<open>
  \<open>convertTickToBson\<close> reads the two group properties with \<open>at\<close>, which throws when one is
  absent, and erases them from the tick; the document's \<open>data\<close> are the properties that
  remain, so the tick after the call stands for the document.
\<close>

definition convertTickToBson :: "Tick \<Rightarrow> cpp_error + Tick" where
  "convertTickToBson tick =
     (if tick ''testingGroups'' = None \<or> tick ''validationGroups'' = None then Inl OutOfRange
      else Inr (tick(''testingGroups'' := None, ''validationGroups'' := None)))"

fun insertTicks :: "nat list \<Rightarrow> (nat \<Rightarrow> Tick) \<Rightarrow> cpp_error + (nat \<Rightarrow> Tick)" where
  "insertTicks [] store = Inr store"
| "insertTicks (tick # rest) store =
     (case convertTickToBson (store tick) of
        Inl e \<Rightarrow> Inl e
      | Inr document \<Rightarrow> insertTicks rest (store(tick := document)))"

definition saveTicks :: "nat list \<Rightarrow> 's PrepareState \<Rightarrow> cpp_error + 's PrepareState" where
  "saveTicks ticks st =
     (if length ticks = 0 then Inr st
      else (case insertTicks ticks (tickStore st) of
              Inl e \<Rightarrow> Inl e
            | Inr store \<Rightarrow> Inr (st\<lparr>tickStore := store, saved := saved st @ [ticks]\<rparr>)))"

text \<open>
  The gap check at the head of the loop body. Both timestamps are read with
  \<open>operator[]\<close>. When the gap exceeds 60, the window is saved, its ticks are deleted and the
  window is emptied.
\<close>

definition gapCheck :: "nat \<Rightarrow> 's PrepareState \<Rightarrow> cpp_error + 's PrepareState" where
  "gapCheck tick st =
     (if length (cumulativeTicks st) > 0 then
        let previousTick = last (cumulativeTicks st);
            tickRead = subscript (tickStore st tick) ''timestamp'';
            store1 = (tickStore st)(tick := snd tickRead);
            previousRead = subscript (store1 previousTick) ''timestamp'';
            store2 = store1(previousTick := snd previousRead);
            st1 = st\<lparr>tickStore := store2\<rparr>
        in if fst tickRead - fst previousRead > 60 then
             (case saveTicks (cumulativeTicks st1) st1 of
                Inl e \<Rightarrow> Inl e
              | Inr st2 \<Rightarrow>
                  Inr (st2\<lparr>deleted := deleted st2 @ cumulativeTicks st2, cumulativeTicks := []\<rparr>))
           else Inr st1
      else Inr st)"

text \<open>
  The studies are run on the window (in parallel in the code; each study writes only its own
  state), then their outputs are merged into the current tick.
\<close>

definition runStudies :: "nat \<Rightarrow> 's PrepareState \<Rightarrow> 's PrepareState" where
  "runStudies tick st =
     (let window = map (tickStore st) (cumulativeTicks st);
          studies1 = map (\<lambda>study. study\<lparr>studyState := studyTick study (studyState study) window\<rparr>)
                       (studies st);
          outputs = concat (map (\<lambda>study. getTickOutputs study (studyState study)) studies1);
          merged = foldl (\<lambda>t output. t(fst output \<mapsto> snd output)) (tickStore st tick) outputs
      in st\<lparr>studies := studies1, tickStore := (tickStore st)(tick := merged)\<rparr>)"

text \<open>
  The periodic save at the end of the loop body: at 2000 ticks, all but the last 1000 are
  saved, the first 1000 are deleted, and the last 1000 are kept.
\<close>

definition periodicSave :: "'s PrepareState \<Rightarrow> cpp_error + 's PrepareState" where
  "periodicSave st =
     (if length (cumulativeTicks st) \<ge> 2000 then
        let firstCumulativeTicks =
              take (length (cumulativeTicks st) - 1000) (cumulativeTicks st)
        in (case saveTicks firstCumulativeTicks st of
              Inl e \<Rightarrow> Inl e
            | Inr st1 \<Rightarrow>
                Inr (st1\<lparr>deleted := deleted st1 @ take 1000 (cumulativeTicks st1),
                         cumulativeTicks :=
                           drop (length (cumulativeTicks st1) - 1000) (cumulativeTicks st1)\<rparr>))
      else Inr st)"

text \<open>The body of the loop over \<open>ticks\<close>.\<close>

definition prepareTick :: "nat \<Rightarrow> 's PrepareState \<Rightarrow> cpp_error + 's PrepareState" where
  "prepareTick tick st =
     (case gapCheck tick st of
        Inl e \<Rightarrow> Inl e
      | Inr st1 \<Rightarrow>
          periodicSave
            (runStudies tick (st1\<lparr>cumulativeTicks := cumulativeTicks st1 @ [tick]\<rparr>)))"

fun forEachTick :: "nat list \<Rightarrow> 's PrepareState \<Rightarrow> cpp_error + 's PrepareState" where
  "forEachTick [] st = Inr st"
| "forEachTick (tick # rest) st =
     (case prepareTick tick st of
        Inl e \<Rightarrow> Inl e
      | Inr st1 \<Rightarrow> forEachTick rest st1)"

text \<open>
  \<open>prepareData\<close>, on the caller's vector of ticks, the store that holds them and the studies
  that \<open>getStudies\<close> returns. The function ends when the loop does.
\<close>

definition prepareData ::
  "nat list \<Rightarrow> (nat \<Rightarrow> Tick) \<Rightarrow> 's Study list \<Rightarrow> cpp_error + 's PrepareState" where
  "prepareData ticks store studyList =
     forEachTick ticks
       \<lparr>tickStore = store, cumulativeTicks = [], studies = studyList, deleted = [], saved = []\<rparr>"

text \<open>
  An example store: the ticks at the addresses 0 and 1 are one minute apart, every later one
  is at time 1000.
\<close>

definition gapTicks :: "nat \<Rightarrow> Tick" where
  "gapTicks a =
     [''timestamp'' \<mapsto> (if a < 2 then 60 * real a else 1000), ''testingGroups'' \<mapsto> 1,
      ''validationGroups'' \<mapsto> 2]"

subsection \<open>buildMapConfigurations and buildConfigurations\<close>

text \<open>
  An option value is a \<open>boost::variant\<close> of a column name and a literal. A
  \<open>ConfigurationOption\<close> is the vector of candidate maps of one axis; a candidate map is
  listed in its iteration order, and so is \<open>options\<close>, the \<open>std::map\<close> from axis names to
  axes (its iteration order is the order of the keys).
\<close>

datatype OptionValue = StringValue string | DoubleValue real

type_synonym ConfigurationOption = "(string \<times> OptionValue) list list"

text \<open>
  A \<open>MapConfiguration\<close> is declared in the optimizer's header, which is not part of the
  sources. By its uses it is a map from field names to a variant of \<open>int\<close> (a column
  position, read with \<open>boost::get<int>\<close>) and \<open>double\<close> (a literal, read with
  \<open>boost::get<double>\<close>). Map configurations are heap objects handled through pointers.
\<close>

datatype MapValue = IntEntry int | DoubleEntry real

type_synonym MapConfiguration = "string \<rightharpoonup> MapValue"

text \<open>
  The state of the builder: the optimizer (for \<open>dataIndex\<close>), the store of map
  configurations, and the vector \<open>results\<close> of pointers.
\<close>

type_synonym BuildState = "Optimizer \<times> (nat \<Rightarrow> MapConfiguration) \<times> nat list"

text \<open>
  The loop over the values of one candidate: each is written into the map configuration at
  \<open>current\<close>, a column name after a look-up in \<open>dataIndex\<close> with \<open>operator[]\<close>.
\<close>

fun assignValues :: "(string \<times> OptionValue) list \<Rightarrow> nat \<Rightarrow> BuildState \<Rightarrow> BuildState" where
  "assignValues [] current st = st"
| "assignValues ((key, StringValue name) # rest) current (self, store, results) =
     assignValues rest current
       (self\<lparr>dataIndex := snd (subscript (dataIndex self) name)\<rparr>,
        store(current := (store current)(key \<mapsto> IntEntry (fst (subscript (dataIndex self) name)))),
        results)"
| "assignValues ((key, DoubleValue literal) # rest) current (self, store, results) =
     assignValues rest current
       (self, store(current := (store current)(key \<mapsto> DoubleEntry literal)), results)"

text \<open>
  \<open>buildMapConfigurations\<close> and its loop over the candidates of the axis at
  \<open>optionIndex\<close>. At the last axis \<open>results->push_back(current)\<close> appends the pointer
  \<open>current\<close>, not a copy of the map it points to.
\<close>

function buildMapConfigurations ::
    "(string \<times> ConfigurationOption) list \<Rightarrow> nat \<Rightarrow> nat \<Rightarrow> BuildState \<Rightarrow> cpp_error + BuildState"
  and forEachConfigurationOption ::
    "(string \<times> ConfigurationOption) list \<Rightarrow> nat \<Rightarrow> nat \<Rightarrow> ConfigurationOption \<Rightarrow>
     BuildState \<Rightarrow> cpp_error + BuildState" where
  "buildMapConfigurations options optionIndex current st =
     (let allKeys = map fst options in
      if optionIndex < length allKeys then
        (let optionKey = allKeys ! optionIndex;
             configurationOptions = (case map_of options optionKey of
                                       Some axis \<Rightarrow> axis | None \<Rightarrow> [])
         in forEachConfigurationOption options optionIndex current configurationOptions st)
      else Inl OutOfBounds)"
| "forEachConfigurationOption options optionIndex current [] st = Inr st"
| "forEachConfigurationOption options optionIndex current (candidate # rest) st =
     (if optionIndex + 1 < length (map fst options) then
        (case buildMapConfigurations options (optionIndex + 1) current
                (assignValues candidate current st) of
           Inl e \<Rightarrow> Inl e
         | Inr st1 \<Rightarrow> forEachConfigurationOption options optionIndex current rest st1)
      else
        (case assignValues candidate current st of
           (self, store, results) \<Rightarrow>
             forEachConfigurationOption options optionIndex current rest
               (self, store, results @ [current])))"
  by pat_completeness auto
termination
  by (relation "measures
        [\<lambda>x. case x of Inl (options, optionIndex, current, st) \<Rightarrow> length options - optionIndex
                      | Inr (options, optionIndex, current, rest, st) \<Rightarrow> length options - optionIndex,
         \<lambda>x. case x of Inl _ \<Rightarrow> 1 | Inr _ \<Rightarrow> 0,
         \<lambda>x. case x of Inl _ \<Rightarrow> 0
                      | Inr (options, optionIndex, current, rest, st) \<Rightarrow> length rest]")
     auto

declare buildMapConfigurations.simps [simp del]

text \<open>
  Reading a field of a map configuration into a \<open>Configuration\<close>, when the map has the
  field: \<open>boost::get\<close> throws when the variant holds the other type.
\<close>

definition setInt ::
  "MapConfiguration \<Rightarrow> string \<Rightarrow> (int \<Rightarrow> Configuration \<Rightarrow> Configuration) \<Rightarrow>
   cpp_error + Configuration \<Rightarrow> cpp_error + Configuration" where
  "setInt mapConfiguration key assign r =
     (case r of
        Inl e \<Rightarrow> Inl e
      | Inr configuration \<Rightarrow>
          (case mapConfiguration key of
             None \<Rightarrow> Inr configuration
           | Some (IntEntry i) \<Rightarrow> Inr (assign i configuration)
           | Some (DoubleEntry d) \<Rightarrow> Inl BadGet))"

definition setDouble ::
  "MapConfiguration \<Rightarrow> string \<Rightarrow> (real \<Rightarrow> Configuration \<Rightarrow> Configuration) \<Rightarrow>
   cpp_error + Configuration \<Rightarrow> cpp_error + Configuration" where
  "setDouble mapConfiguration key assign r =
     (case r of
        Inl e \<Rightarrow> Inl e
      | Inr configuration \<Rightarrow>
          (case mapConfiguration key of
             None \<Rightarrow> Inr configuration
           | Some (DoubleEntry d) \<Rightarrow> Inr (assign d configuration)
           | Some (IntEntry i) \<Rightarrow> Inl BadGet))"

text \<open>
  The five basic properties of a new configuration, read from \<open>dataIndex\<close> with
  \<open>operator[]\<close> in the order timestamp, open, high, low, close.
\<close>

definition basicProperties :: "Optimizer \<Rightarrow> Configuration \<times> Optimizer" where
  "basicProperties self =
     (let r1 = subscript (dataIndex self) ''timestamp'';
          r2 = subscript (snd r1) ''open'';
          r3 = subscript (snd r2) ''high'';
          r4 = subscript (snd r3) ''low'';
          r5 = subscript (snd r4) ''close''
      in (newConfiguration\<lparr>timestamp_column := fst r1, open_column := fst r2, high := fst r3,
                             low := fst r4, close_column := fst r5\<rparr>,
          self\<lparr>dataIndex := snd r5\<rparr>))"

text \<open>The body of the conversion loop of \<open>buildConfigurations\<close>, for one map configuration.\<close>

definition convertMapConfiguration ::
  "MapConfiguration \<Rightarrow> Optimizer \<Rightarrow> cpp_error + Configuration \<times> Optimizer" where
  "convertMapConfiguration mapConfiguration self =
     (case
        setDouble mapConfiguration ''stochasticOversold'' (\<lambda>v c. c\<lparr>stochasticOversold := v\<rparr>)
       (setDouble mapConfiguration ''stochasticOverbought'' (\<lambda>v c. c\<lparr>stochasticOverbought := v\<rparr>)
       (setDouble mapConfiguration ''rsiOversold'' (\<lambda>v c. c\<lparr>rsiOversold := v\<rparr>)
       (setDouble mapConfiguration ''rsiOverbought'' (\<lambda>v c. c\<lparr>rsiOverbought := v\<rparr>)
       (setInt mapConfiguration ''prChannelLower'' (\<lambda>v c. c\<lparr>prChannelLower := v\<rparr>)
       (setInt mapConfiguration ''prChannelUpper'' (\<lambda>v c. c\<lparr>prChannelUpper := v\<rparr>)
       (setInt mapConfiguration ''stochasticK'' (\<lambda>v c. c\<lparr>stochasticK := v\<rparr>)
       (setInt mapConfiguration ''stochasticD'' (\<lambda>v c. c\<lparr>stochasticD := v\<rparr>)
       (setInt mapConfiguration ''rsi'' (\<lambda>v c. c\<lparr>rsi := v\<rparr>)
       (setInt mapConfiguration ''ema200'' (\<lambda>v c. c\<lparr>ema200 := v\<rparr>)
       (setInt mapConfiguration ''ema100'' (\<lambda>v c. c\<lparr>ema100 := v\<rparr>)
       (setInt mapConfiguration ''ema50'' (\<lambda>v c. c\<lparr>ema50 := v\<rparr>)
       (setInt mapConfiguration ''sma13'' (\<lambda>v c. c\<lparr>sma13 := v\<rparr>)
          (Inr (fst (basicProperties self)))))))))))))))
      of
        Inl e \<Rightarrow> Inl e
      | Inr configuration \<Rightarrow> Inr (configuration, snd (basicProperties self)))"

fun convertMapConfigurations ::
  "nat list \<Rightarrow> (nat \<Rightarrow> MapConfiguration) \<Rightarrow> Configuration list \<Rightarrow> Optimizer \<Rightarrow>
   cpp_error + Configuration list \<times> Optimizer" where
  "convertMapConfigurations [] store configurations' self = Inr (configurations', self)"
| "convertMapConfigurations (pointer # rest) store configurations' self =
     (case convertMapConfiguration (store pointer) self of
        Inl e \<Rightarrow> Inl e
      | Inr (configuration, self1) \<Rightarrow>
          convertMapConfigurations rest store (configurations' @ [configuration]) self1)"

text \<open>
  \<open>buildConfigurations\<close> calls \<open>buildMapConfigurations(options)\<close>; the other three
  arguments are defaults declared in the header. They are taken to be the index 0, a new
  empty vector of results, and a pointer to a new empty map configuration (address 0 of a
  store of empty maps).
\<close>

definition buildConfigurations ::
  "(string \<times> ConfigurationOption) list \<Rightarrow> Optimizer \<Rightarrow>
   cpp_error + Configuration list \<times> Optimizer" where
  "buildConfigurations options self =
     (case buildMapConfigurations options 0 0 (self, (\<lambda>pointer. Map.empty), []) of
        Inl e \<Rightarrow> Inl e
      | Inr (self1, store, mapConfigurations) \<Rightarrow>
          convertMapConfigurations mapConfigurations store [] self1)"

text \<open>
  Examples: two axes of two literal candidates each; one axis whose only candidate names a
  column; and an index of six columns.
\<close>

definition thresholdOptions :: "(string \<times> ConfigurationOption) list" where
  "thresholdOptions =
     [(''overbought'', [[(''rsiOverbought'', DoubleValue 70)], [(''rsiOverbought'', DoubleValue 80)]]),
      (''oversold'', [[(''rsiOversold'', DoubleValue 20)], [(''rsiOversold'', DoubleValue 30)]])]"

definition rsiOptions :: "string \<Rightarrow> (string \<times> ConfigurationOption) list" where
  "rsiOptions name = [(''rsi'', [[(''rsi'', StringValue name)]])]"

definition sixColumns :: Optimizer where
  "sixColumns =
     \<lparr>dataIndex = [''timestamp'' \<mapsto> 0, ''open'' \<mapsto> 1, ''high'' \<mapsto> 2, ''low'' \<mapsto> 3,
                   ''close'' \<mapsto> 4, ''rsi5'' \<mapsto> 5],
      dataCount = 1, data = []\<rparr>"

section \<open>Results\<close>

text \<open>
  C9. \<open>getResults\<close> reports \<open>winRate = winCount / (winCount + loseCount)\<close> when some trade was
  counted and \<open>winRate = 0\<close> when none was; the result is always a finite number, so the
  division is never performed with a zero divisor.
\<close>

theorem getResults_winRate:
  "winRate_res (getResults self) =
     Some (if winCount self + loseCount self = 0 then 0
           else real (winCount self) / real (winCount self + loseCount self))"
  by (simp add: getResults_def getWinRate_def js_div_def)

subsection \<open>Counting settled positions\<close>

lemma forEachOpenPosition_counts:
  assumes "distinct rest"
    and "forEachOpenPosition ops price timestamp rest index (self, store, expired)
           = (self', store', expired')"
  shows "expired' = expired @ filter (\<lambda>p. getHasExpired ops (store p) timestamp) rest
       \<and> winCount self' = winCount self + length (filter
           (\<lambda>p. getProfitLoss ops (close ops (store p) price timestamp)
                  > getInvestment ops (close ops (store p) price timestamp))
           (filter (\<lambda>p. getHasExpired ops (store p) timestamp) rest))
       \<and> loseCount self' = loseCount self + length (filter
           (\<lambda>p. getProfitLoss ops (close ops (store p) price timestamp) = 0)
           (filter (\<lambda>p. getHasExpired ops (store p) timestamp) rest))"
  using assms
proof (induction rest arbitrary: index self store expired)
  case Nil
  then show ?case by simp
next
  case (Cons position rest)
  obtain self1 store1 expired1 where step:
    "closeExpiredPosition ops price timestamp position index (self, store, expired)
       = (self1, store1, expired1)"
    by (cases "closeExpiredPosition ops price timestamp position index (self, store, expired)") auto
  from Cons.prems have d: "distinct rest" and notin: "position \<notin> set rest" by auto
  from Cons.prems step have run:
    "forEachOpenPosition ops price timestamp rest (Suc index) (self1, store1, expired1)
       = (self', store', expired')" by simp
  have same: "\<forall>p \<in> set rest. store1 p = store p"
    using step notin by (auto simp: closeExpiredPosition_def Let_def split: if_splits)
  have f1: "filter (\<lambda>p. getHasExpired ops (store1 p) timestamp) rest
          = filter (\<lambda>p. getHasExpired ops (store p) timestamp) rest"
    using same by (intro filter_cong) auto
  have f2: "filter (\<lambda>p. getProfitLoss ops (close ops (store1 p) price timestamp)
                  > getInvestment ops (close ops (store1 p) price timestamp))
             (filter (\<lambda>p. getHasExpired ops (store p) timestamp) rest)
          = filter (\<lambda>p. getProfitLoss ops (close ops (store p) price timestamp)
                  > getInvestment ops (close ops (store p) price timestamp))
             (filter (\<lambda>p. getHasExpired ops (store p) timestamp) rest)"
    using same by (intro filter_cong) auto
  have f3: "filter (\<lambda>p. getProfitLoss ops (close ops (store1 p) price timestamp) = 0)
             (filter (\<lambda>p. getHasExpired ops (store p) timestamp) rest)
          = filter (\<lambda>p. getProfitLoss ops (close ops (store p) price timestamp) = 0)
             (filter (\<lambda>p. getHasExpired ops (store p) timestamp) rest)"
    using same by (intro filter_cong) auto
  note IH = Cons.IH [OF d run, unfolded f1 f2 f3]
  show ?case
  proof (cases "getHasExpired ops (store position) timestamp")
    case True
    with step have
      "expired1 = expired @ [position]"
      "winCount self1 = winCount self +
         (if getProfitLoss ops (close ops (store position) price timestamp)
               > getInvestment ops (close ops (store position) price timestamp) then 1 else 0)"
      "loseCount self1 = loseCount self +
         (if getProfitLoss ops (close ops (store position) price timestamp) = 0 then 1 else 0)"
      by (auto simp: closeExpiredPosition_def Let_def)
    with IH True show ?thesis by simp
  next
    case False
    with step have "self1 = self" "expired1 = expired"
      by (auto simp: closeExpiredPosition_def)
    with IH False show ?thesis by simp
  qed
qed

text \<open>
  C10. When \<open>closeExpiredPositions\<close> runs over distinct open positions, it settles exactly
  those that have expired; \<open>winCount\<close> grows by the number of settled positions whose
  profit/loss is strictly greater than their investment, and \<open>loseCount\<close> by the number whose
  profit/loss is exactly 0. A settled position whose profit/loss lies strictly between 0 and
  its investment changes neither counter, so starting from no counted trades and settling at
  least one such position (and only such positions), the reported \<open>tradeCount\<close> is strictly
  smaller than the number of settled positions.
\<close>

theorem closeExpiredPositions_counters:
  assumes "distinct (openPositions self)"
    and "closeExpiredPositions ops price timestamp self store = (self', store', expired)"
  shows "expired = filter (\<lambda>p. getHasExpired ops (store p) timestamp) (openPositions self)
       \<and> winCount self' = winCount self + length (filter
           (\<lambda>p. getProfitLoss ops (close ops (store p) price timestamp)
                  > getInvestment ops (close ops (store p) price timestamp)) expired)
       \<and> loseCount self' = loseCount self + length (filter
           (\<lambda>p. getProfitLoss ops (close ops (store p) price timestamp) = 0) expired)
       \<and> (winCount self + loseCount self = 0 \<and> expired \<noteq> [] \<and>
            list_all (\<lambda>p. 0 < getProfitLoss ops (close ops (store p) price timestamp) \<and>
                          getProfitLoss ops (close ops (store p) price timestamp)
                            < getInvestment ops (close ops (store p) price timestamp)) expired
          \<longrightarrow> tradeCount_res (getResults self') < length expired)"
proof -
  from assms(2) have run:
    "forEachOpenPosition ops price timestamp (openPositions self) 0 (self, store, [])
       = (self', store', expired)"
    by (simp add: closeExpiredPositions_def)
  note c = forEachOpenPosition_counts [OF assms(1) run]
  from c have e: "expired = filter (\<lambda>p. getHasExpired ops (store p) timestamp) (openPositions self)"
    by simp
  from c e have w: "winCount self' = winCount self + length (filter
           (\<lambda>p. getProfitLoss ops (close ops (store p) price timestamp)
                  > getInvestment ops (close ops (store p) price timestamp)) expired)"
    by simp
  from c e have l: "loseCount self' = loseCount self + length (filter
           (\<lambda>p. getProfitLoss ops (close ops (store p) price timestamp) = 0) expired)"
    by simp
  have none: "tradeCount_res (getResults self') < length expired"
    if a: "winCount self + loseCount self = 0" "expired \<noteq> []"
       "list_all (\<lambda>p. 0 < getProfitLoss ops (close ops (store p) price timestamp) \<and>
                          getProfitLoss ops (close ops (store p) price timestamp)
                            < getInvestment ops (close ops (store p) price timestamp)) expired"
  proof -
    have "filter (\<lambda>p. getProfitLoss ops (close ops (store p) price timestamp)
                  > getInvestment ops (close ops (store p) price timestamp)) expired = []"
      using a(3) by (auto simp: list_all_iff filter_empty_conv)
    moreover have "filter (\<lambda>p. getProfitLoss ops (close ops (store p) price timestamp) = 0) expired = []"
      using a(3) by (auto simp: list_all_iff filter_empty_conv)
    ultimately have "winCount self' + loseCount self' = 0"
      using w l a(1) by simp
    then show ?thesis using a(2) by (simp add: getResults_def)
  qed
  show ?thesis
  proof (intro conjI impI)
    show "expired = filter (\<lambda>p. getHasExpired ops (store p) timestamp) (openPositions self)"
      by (rule e)
    show "winCount self' = winCount self + length (filter
           (\<lambda>p. getProfitLoss ops (close ops (store p) price timestamp)
                  > getInvestment ops (close ops (store p) price timestamp)) expired)"
      by (rule w)
    show "loseCount self' = loseCount self + length (filter
           (\<lambda>p. getProfitLoss ops (close ops (store p) price timestamp) = 0) expired)"
      by (rule l)
  next
    assume "winCount self + loseCount self = 0 \<and> expired \<noteq> [] \<and>
            list_all (\<lambda>p. 0 < getProfitLoss ops (close ops (store p) price timestamp) \<and>
                          getProfitLoss ops (close ops (store p) price timestamp)
                            < getInvestment ops (close ops (store p) price timestamp)) expired"
    then show "tradeCount_res (getResults self') < length expired"
      using none by simp
  qed
qed

theorem closeExpiredPositions_counters_witness:
  "distinct (openPositions ((newBase ''EURUSD'')\<lparr>openPositions := [0, 1]\<rparr>))
   \<and> closeExpiredPositions examplePositionOps 1 7
        ((newBase ''EURUSD'')\<lparr>openPositions := [0, 1]\<rparr>) exampleStore
      = ((newBase ''EURUSD'')\<lparr>openPositions := [1], profitLoss := - 6, minimumProfitLoss := 4\<rparr>,
         exampleStore(0 := (5, 10, 4, True)), [0])
   \<and> tradeCount_res (getResults
        ((newBase ''EURUSD'')\<lparr>openPositions := [1], profitLoss := - 6, minimumProfitLoss := 4\<rparr>))
      < length [0::nat]"
proof -
  have d: "distinct (openPositions ((newBase ''EURUSD'')\<lparr>openPositions := [0, 1]\<rparr>))"
    by simp
  have run: "closeExpiredPositions examplePositionOps 1 7
        ((newBase ''EURUSD'')\<lparr>openPositions := [0, 1]\<rparr>) exampleStore
      = ((newBase ''EURUSD'')\<lparr>openPositions := [1], profitLoss := - 6, minimumProfitLoss := 4\<rparr>,
         exampleStore(0 := (5, 10, 4, True)), [0])"
    by (simp add: closeExpiredPositions_def closeExpiredPosition_def examplePositionOps_def
        exampleStore_def newBase_def splice1_def Let_def)
  from closeExpiredPositions_counters [OF d run] d run show ?thesis
    by (simp add: examplePositionOps_def exampleStore_def newBase_def)
qed

subsection \<open>The moving-average entry rule of ReversalsCombined\<close>

text \<open>
  The rule that the loop over the configurations implements: the put flag of a configuration
  that has \<open>ema200\<close> and \<open>ema100\<close> set is cleared when the data point's \<open>ema200\<close> is strictly
  below its \<open>ema100\<close>.
\<close>

lemma movingAverageBlock_put:
  "fst (movingAverageBlock longer shorter flags) \<Longrightarrow> fst flags \<and> \<not> js_lt longer shorter"
  by (cases flags) (auto simp: movingAverageBlock_def Let_def split: if_splits)

lemma rsiBlock_put: "fst (rsiBlock r dataPoint flags) \<Longrightarrow> fst flags"
  by (cases flags) (auto simp: rsiBlock_def split: option.splits if_splits)

lemma prChannelBlock_put: "fst (prChannelBlock c dataPoint flags) \<Longrightarrow> fst flags"
  by (cases flags) (auto simp: prChannelBlock_def split: if_splits)

lemma trendPrChannelBlock_put: "fst (trendPrChannelBlock t previous dataPoint flags) \<Longrightarrow> fst flags"
  by (cases flags) (auto simp: trendPrChannelBlock_def split: option.splits if_splits)

lemma configurationFlags_put:
  assumes "ema200_js configuration" "ema100_js configuration"
    and "js_lt (dataPoint ''ema200'') (dataPoint ''ema100'')"
  shows "\<not> fst (configurationFlags previousDataPoint dataPoint configuration)"
proof
  assume put: "fst (configurationFlags previousDataPoint dataPoint configuration)"
  define f1 where "f1 = movingAverageBlock (dataPoint ''ema200'') (dataPoint ''ema100'') (True, True)"
  define f2 where "f2 = (if ema100_js configuration \<and> ema50_js configuration
                then movingAverageBlock (dataPoint ''ema100'') (dataPoint ''ema50'') f1 else f1)"
  define f3 where "f3 = (if ema50_js configuration \<and> sma13_js configuration
                then movingAverageBlock (dataPoint ''ema50'') (dataPoint ''sma13'') f2 else f2)"
  define f4 where "f4 = (case rsi_js configuration of
                  None \<Rightarrow> f3 | Some r \<Rightarrow> rsiBlock r dataPoint f3)"
  define f5 where "f5 = (case prChannel_js configuration of
                  None \<Rightarrow> f4 | Some c \<Rightarrow> prChannelBlock c dataPoint f4)"
  have "configurationFlags previousDataPoint dataPoint configuration
        = (case trendPrChannel_js configuration of
             None \<Rightarrow> f5 | Some t \<Rightarrow> trendPrChannelBlock t previousDataPoint dataPoint f5)"
    by (simp only: configurationFlags_def Let_def f1_def f2_def f3_def f4_def f5_def
        assms(1,2) simp_thms if_True)
  with put have "fst f5"
    by (auto split: option.splits dest: trendPrChannelBlock_put)
  then have "fst f4"
    by (auto simp: f5_def split: option.splits dest: prChannelBlock_put)
  then have "fst f3"
    by (auto simp: f4_def split: option.splits dest: rsiBlock_put)
  then have "fst f2"
    by (auto simp: f3_def split: if_splits dest: movingAverageBlock_put)
  then have "fst f1"
    by (auto simp: f2_def split: if_splits dest: movingAverageBlock_put)
  then have "\<not> js_lt (dataPoint ''ema200'') (dataPoint ''ema100'')"
    unfolding f1_def by (rule movingAverageBlock_put [THEN conjunct2])
  with assms(3) show False by simp
qed

lemma forEachConfiguration_put:
  assumes "list_all (\<lambda>c. ema200_js c \<and> ema100_js c) cfgs"
    and "js_lt (dataPoint ''ema200'') (dataPoint ''ema100'')"
  shows "fst (forEachConfiguration previousDataPoint dataPoint cfgs next) = fst next"
  using assms(1)
proof (induction cfgs arbitrary: "next")
  case Nil
  then show ?case by simp
next
  case (Cons c cfgs)
  then have "\<not> fst (configurationFlags previousDataPoint dataPoint c)"
    using assms(2) by (simp add: configurationFlags_put)
  with Cons show ?case by simp
qed

text \<open>
  The rule itself, on the two example data points: with \<open>ema200 > ema100 > ema50 > sma13\<close>
  the put flag of the configuration stays set and the call flag is cleared; with the reverse
  order it is the other way round.
\<close>

lemma configurationFlags_examples:
  "configurationFlags None fallingDataPoint trendConfiguration = (True, False)"
  "configurationFlags None risingDataPoint trendConfiguration = (False, True)"
  by (simp_all add: configurationFlags_def movingAverageBlock_def trendConfiguration_def
      fallingDataPoint_def risingDataPoint_def truthy_def js_lt_def js_gt_def Let_def)

subsection \<open>backtest of ReversalsCombined\<close>




subsection \<open>loadData\<close>

lemma loadProperties_dataIndex:
  "dataCount' \<noteq> 0 \<Longrightarrow>
   loadProperties dataCount' properties propertyIndex (row, index) = Inr (row', index') \<Longrightarrow>
   index' = index"
proof (induction properties arbitrary: propertyIndex row)
  case Nil
  then show ?case by simp
next
  case (Cons property properties)
  obtain propertyName propertyValue where p: "property = (propertyName, propertyValue)"
    by (cases property)
  from Cons.prems p have
    "loadProperties dataCount' properties (Suc propertyIndex)
       (row[propertyIndex := Some propertyValue], index) = Inr (row', index')"
    by (simp split: if_splits)
  with Cons.IH Cons.prems(1) show ?case by blast
qed

lemma loadRows_dataIndex:
  "dataCount self \<noteq> 0 \<Longrightarrow>
   loadRows dataPropertyCount documents dataPointIndex self = Inr self' \<Longrightarrow>
   dataIndex self' = dataIndex self"
proof (induction documents arbitrary: dataPointIndex self)
  case Nil
  then show ?case by simp
next
  case (Cons document documents)
  from Cons.prems(2) obtain row index where
    row: "(case document of
             None \<Rightarrow> Inr (replicate dataPropertyCount None, dataIndex self)
           | Some properties \<Rightarrow>
               loadProperties (dataCount self) properties 0
                 (replicate dataPropertyCount None, dataIndex self)) = Inr (row, index)"
    and run: "loadRows dataPropertyCount documents (Suc dataPointIndex)
               (self\<lparr>data := (data self)[dataPointIndex := Some row], dataIndex := index\<rparr>)
              = Inr self'"
    by (auto split: if_splits sum.splits)
  from row Cons.prems(1) have "index = dataIndex self"
    by (auto split: option.splits dest: loadProperties_dataIndex)
  moreover from Cons.IH [OF _ run] Cons.prems(1) have "dataIndex self' = index"
    by simp
  ultimately show ?case by simp
qed

lemma loadRows_no_rows_allocated:
  "data self = [] \<Longrightarrow> loadRows dataPropertyCount documents dataPointIndex self = Inr self' \<Longrightarrow>
   self' = self"
  by (cases documents) auto

text \<open>
  C4, for every call of \<open>loadData\<close> that returns: \<open>dataIndex\<close> is what it was before
  the call, so no field of the first row is given a position by the load. The branch that
  fills the index tests \<open>dataCount = 0\<close>, where \<open>dataCount\<close> is the number of rows counted;
  with \<open>dataCount = 0\<close> no row can be stored, and with rows to store the branch is not taken.
\<close>

theorem loadData_dataIndex_unchanged:
  assumes "loadData dataPropertyCount count documents self = Inr self'"
  shows "dataIndex self' = dataIndex self"
proof (cases "count = 0")
  case True
  with assms have "loadRows dataPropertyCount documents 0 (self\<lparr>dataCount := 0, data := []\<rparr>)
                     = Inr self'"
    by (simp add: loadData_def)
  then have "self' = self\<lparr>dataCount := 0, data := []\<rparr>"
    by (rule loadRows_no_rows_allocated [rotated]) simp
  then show ?thesis by simp
next
  case False
  from assms have run: "loadRows dataPropertyCount documents 0
          (self\<lparr>dataCount := count, data := replicate (nat count) None\<rparr>) = Inr self'"
    by (simp add: loadData_def Let_def split: if_splits)
  have "dataIndex self' = dataIndex (self\<lparr>dataCount := count,
          data := replicate (nat count) None\<rparr>)"
    by (rule loadRows_dataIndex [OF _ run]) (simp add: False)
  then show ?thesis by simp
qed

text \<open>
  At a store of one row with the fields \<open>timestamp\<close> and \<open>open\<close>: \<open>loadData\<close> returns
  with the row loaded, and \<open>dataIndex\<close> is still empty.
\<close>

theorem loadData_first_row_not_indexed:
  "loadData 2 1 [Some [(''timestamp'', 1), (''open'', 2)]] newOptimizer
     = Inr \<lparr>dataIndex = Map.empty, dataCount = 1, data = [Some [Some 1, Some 2]]\<rparr>
   \<and> dataIndex \<lparr>dataIndex = Map.empty, dataCount = 1, data = [Some [Some 1, Some 2]]\<rparr>
       = dataIndex newOptimizer"
proof -
  have run: "loadData 2 1 [Some [(''timestamp'', 1), (''open'', 2)]] newOptimizer
     = Inr \<lparr>dataIndex = Map.empty, dataCount = 1, data = [Some [Some 1, Some 2]]\<rparr>"
    by (simp add: loadData_def newOptimizer_def numeral_2_eq_2)
  from loadData_dataIndex_unchanged [OF run] run show ?thesis
    by simp
qed

text \<open>
  C7, at a store without rows for the symbol (the count query returns 0 and the cursor yields
  nothing): \<open>loadData\<close> returns normally, with an empty matrix; only a negative count is an
  error.
\<close>

theorem loadData_zero_rows:
  "loadData dataPropertyCount 0 [] self = Inr (self\<lparr>dataCount := 0, data := []\<rparr>)"
  by (simp add: loadData_def)

subsection \<open>optimize\<close>

text \<open>
  C6, at every non-empty list of configurations: the first write of the preparation loop is at
  index 0 of the empty vector \<open>strategies\<close>, outside its bounds, and \<open>optimize\<close> does not get
  past it.
\<close>

theorem optimize_strategies_out_of_bounds:
  "prepareStrategies create (configuration # rest) 0 [] = Inl OutOfBounds
   \<and> optimize create strategyBacktest self (configuration # rest) investment profitability
       = Inl OutOfBounds"
  by (simp add: optimize_def vector_assign_def)

lemma half_step:
  fixes d :: int
  assumes "0 < d"
  shows "nat ((d + 1) div 2) = Suc (nat ((d - 2 + 1) div 2))"
proof -
  have "(d + 1) div 2 = (d - 2 + 1) div 2 + 1" by presburger
  moreover from assms have "0 \<le> (d - 2 + 1) div 2" by presburger
  ultimately show ?thesis by (simp add: Suc_nat_eq_nat_zadd1)
qed

text \<open>
  The data loop on an empty vector of strategies: it runs its body at \<open>i\<close>, \<open>i + 2\<close>,
  \<open>i + 4\<close>, ... and prints one percentage each time, from the counter after \<open>++i\<close>.
\<close>

lemma optimizeTicks_no_strategies:
  "strategies = [] \<Longrightarrow>
   optimizeTicks strategyBacktest self investment profitability i strategies progress
     = Inr ([], progress @
         map (\<lambda>k. real_of_int (i + 2 * int k + 1) / real_of_int (dataCount self) * 100)
           [0..<nat ((dataCount self - i + 1) div 2)])"
proof (induction strategyBacktest self investment profitability i strategies progress
    rule: optimizeTicks.induct)
  case (1 strategyBacktest self investment profitability i strategies progress)
  note unfold = optimizeTicks.simps
    [of strategyBacktest self investment profitability i strategies progress]
  show ?case
  proof (cases "i < dataCount self")
    case False
    then have "nat ((dataCount self - i + 1) div 2) = 0" by simp
    with False "1.prems" show ?thesis
      unfolding unfold by simp
  next
    case True
    have inb: "\<not> (strategies \<noteq> [] \<and> (i < 0 \<or> nat i \<ge> length (data self)))"
      using "1.prems" by simp
    have empty: "map (\<lambda>strategy. strategyBacktest strategy (data self ! nat i)
                   investment profitability) strategies = []"
      using "1.prems" by simp
    define n where "n = nat (((dataCount self - i) - 2 + 1) div 2)"
    have count: "nat ((dataCount self - i + 1) div 2) = Suc n"
      unfolding n_def using True by (intro half_step) simp
    have count': "nat ((dataCount self - (i + 1 + 1) + 1) div 2) = n"
      unfolding n_def by (simp add: algebra_simps)
    have "optimizeTicks strategyBacktest self investment profitability i strategies progress
          = optimizeTicks strategyBacktest self investment profitability ((i + 1) + 1)
              (map (\<lambda>strategy. strategyBacktest strategy (data self ! nat i)
                      investment profitability) strategies)
              (progress @ [real_of_int (i + 1) / real_of_int (dataCount self) * 100])"
      by (subst unfold) (simp only: True inb if_True if_False)
    also have "\<dots> = Inr ([], (progress @ [real_of_int (i + 1) / real_of_int (dataCount self) * 100]) @
         map (\<lambda>k. real_of_int ((i + 1 + 1) + 2 * int k + 1) / real_of_int (dataCount self) * 100)
           [0..<n])"
      using "1.IH" [OF True inb empty] count' by simp
    also have "(progress @ [real_of_int (i + 1) / real_of_int (dataCount self) * 100]) @
         map (\<lambda>k. real_of_int ((i + 1 + 1) + 2 * int k + 1) / real_of_int (dataCount self) * 100)
           [0..<n]
        = progress @
         map (\<lambda>k. real_of_int (i + 2 * int k + 1) / real_of_int (dataCount self) * 100)
           [0..<Suc n]"
      by (simp add: map_upt_Suc algebra_simps del: upt_Suc)
    finally show ?thesis by (simp only: count)
  qed
qed

text \<open>
  C2, for every call of \<open>optimize\<close>. With a configuration, the call ends at the first write
  into the empty vector \<open>strategies\<close>, before any \<open>backtest\<close> is called for any row. Without
  one, the data loop runs its body for the rows 0, 2, 4, ... only, half of the rows (rounded
  up): the progress line increments the loop counter and so does the loop header, so the
  rows at odd indices are skipped. The percentages it prints are those of the counters 1, 3,
  5, ...
\<close>

theorem optimize_rows_processed:
  "optimize create strategyBacktest self configurations' investment profitability
     = (if configurations' = [] then
          Inr ([], map (\<lambda>k. real_of_int (2 * int k + 1) / real_of_int (dataCount self) * 100)
                     [0..<nat ((dataCount self + 1) div 2)])
        else Inl OutOfBounds)"
proof (cases configurations')
  case Nil
  then show ?thesis
    by (simp add: optimize_def optimizeTicks_no_strategies)
next
  case (Cons configuration rest)
  then show ?thesis
    by (simp add: optimize_def vector_assign_def)
qed

text \<open>
  At three loaded rows: without a configuration the loop body runs twice (at row 0 and at row
  2) and prints two percentages; with one configuration no row is processed at all.
\<close>

theorem optimize_three_rows:
  "optimize newRecorder recordingBacktest threeRows [] 10 0.7 = Inr ([], [100 / 3, 100])
   \<and> optimize newRecorder recordingBacktest threeRows [newConfiguration] 10 0.7
       = Inl OutOfBounds"
  using optimize_rows_processed [of newRecorder recordingBacktest threeRows "[]" 10 "0.7"]
    optimize_rows_processed [of newRecorder recordingBacktest threeRows "[newConfiguration]" 10 "0.7"]
  by (simp add: threeRows_def eval_nat_numeral)

subsection \<open>prepareData\<close>

text \<open>
  Saved batches and the window partition the ticks processed so far, in order: every step of
  the loop appends the current tick to the window, and a save moves a prefix of the window to
  the saved batches.
\<close>

lemma saveTicks_effect:
  assumes "saveTicks batch st = Inr st'"
  shows "concat (saved st') = concat (saved st) @ batch \<and> cumulativeTicks st' = cumulativeTicks st"
  using assms by (auto simp: saveTicks_def split: if_splits sum.splits)

lemma gapCheck_effect:
  assumes "gapCheck tick st = Inr st'"
  shows "concat (saved st') @ cumulativeTicks st' = concat (saved st) @ cumulativeTicks st"
proof (cases "length (cumulativeTicks st) > 0")
  case False
  with assms show ?thesis by (simp add: gapCheck_def)
next
  case True
  define st1 where "st1 = st\<lparr>tickStore :=
     ((tickStore st)(tick := snd (subscript (tickStore st tick) ''timestamp'')))
       (last (cumulativeTicks st) :=
          snd (subscript (((tickStore st)(tick := snd (subscript (tickStore st tick) ''timestamp'')))
                 (last (cumulativeTicks st))) ''timestamp''))\<rparr>"
  have c1: "cumulativeTicks st1 = cumulativeTicks st" and s1: "saved st1 = saved st"
    by (simp_all add: st1_def)
  from assms True consider
      (keep) "st' = st1"
    | (flush) st2 where "saveTicks (cumulativeTicks st1) st1 = Inr st2"
        "st' = st2\<lparr>deleted := deleted st2 @ cumulativeTicks st2, cumulativeTicks := []\<rparr>"
    by (auto simp: gapCheck_def Let_def st1_def split: if_splits sum.splits)
  then show ?thesis
  proof cases
    case keep
    then show ?thesis by (simp add: c1 s1)
  next
    case flush
    from saveTicks_effect [OF flush(1)] flush(2) show ?thesis
      by (simp add: c1 s1)
  qed
qed

lemma runStudies_effect:
  "saved (runStudies tick st) = saved st \<and> cumulativeTicks (runStudies tick st) = cumulativeTicks st"
  by (simp add: runStudies_def Let_def)

lemma periodicSave_effect:
  assumes "periodicSave st = Inr st'"
  shows "concat (saved st') @ cumulativeTicks st' = concat (saved st) @ cumulativeTicks st
       \<and> (cumulativeTicks st \<noteq> [] \<longrightarrow> cumulativeTicks st' \<noteq> [])"
proof (cases "length (cumulativeTicks st) \<ge> 2000")
  case False
  with assms show ?thesis by (simp add: periodicSave_def)
next
  case True
  from assms True obtain st1 where
    s: "saveTicks (take (length (cumulativeTicks st) - 1000) (cumulativeTicks st)) st = Inr st1"
    and r: "st' = st1\<lparr>deleted := deleted st1 @ take 1000 (cumulativeTicks st1),
                     cumulativeTicks :=
                       drop (length (cumulativeTicks st1) - 1000) (cumulativeTicks st1)\<rparr>"
    by (auto simp: periodicSave_def Let_def split: sum.splits)
  from saveTicks_effect [OF s] r True show ?thesis by (auto simp: not_le)
qed

lemma prepareTick_effect:
  assumes "prepareTick tick st = Inr st'"
  shows "concat (saved st') @ cumulativeTicks st' = concat (saved st) @ cumulativeTicks st @ [tick]
       \<and> cumulativeTicks st' \<noteq> []"
proof -
  from assms obtain st1 where g: "gapCheck tick st = Inr st1"
    and p: "periodicSave (runStudies tick (st1\<lparr>cumulativeTicks := cumulativeTicks st1 @ [tick]\<rparr>))
              = Inr st'"
    by (auto simp: prepareTick_def split: sum.splits)
  from periodicSave_effect [OF p] gapCheck_effect [OF g] show ?thesis
    by (simp add: runStudies_effect)
qed

lemma forEachTick_effect:
  assumes "forEachTick ticks st = Inr st'"
  shows "concat (saved st') @ cumulativeTicks st' = concat (saved st) @ cumulativeTicks st @ ticks
       \<and> (ticks \<noteq> [] \<longrightarrow> cumulativeTicks st' \<noteq> [] \<and> last (cumulativeTicks st') = last ticks)"
  using assms
proof (induction ticks arbitrary: st)
  case Nil
  then show ?case by simp
next
  case (Cons tick ticks)
  then obtain st1 where p: "prepareTick tick st = Inr st1" and f: "forEachTick ticks st1 = Inr st'"
    by (auto split: sum.splits)
  note a = prepareTick_effect [OF p] and b = Cons.IH [OF f]
  show ?case
  proof (cases "ticks = []")
    case True
    with f have "st' = st1" by simp
    with a True show ?thesis
      by (metis append_assoc last_appendR last_snoc list.distinct(1))
  next
    case False
    with a b show ?thesis by simp
  qed
qed

text \<open>
  C5, for every non-empty vector of distinct ticks on which \<open>prepareData\<close> returns: the
  saved batches followed by the final window are the input, so no tick is saved twice; but
  the final window is never empty and is never saved, so the last tick of the input (with
  every other tick of the final window) is in no batch passed to \<open>saveTicks\<close>.
\<close>

theorem prepareData_last_tick_not_saved:
  assumes "prepareData ticks store studyList = Inr st"
    and "ticks \<noteq> []"
    and "distinct ticks"
  shows "concat (saved st) @ cumulativeTicks st = ticks
       \<and> cumulativeTicks st \<noteq> []
       \<and> distinct (concat (saved st))
       \<and> last ticks \<notin> set (concat (saved st))"
proof -
  from assms(1) have run: "forEachTick ticks
       \<lparr>tickStore = store, cumulativeTicks = [], studies = studyList, deleted = [], saved = []\<rparr>
       = Inr st"
    by (simp add: prepareData_def)
  from forEachTick_effect [OF run] assms(2) have
    part: "concat (saved st) @ cumulativeTicks st = ticks"
    and window: "cumulativeTicks st \<noteq> []"
    and final: "last (cumulativeTicks st) = last ticks"
    by simp_all
  from part assms(3) have d: "distinct (concat (saved st) @ cumulativeTicks st)"
    by simp
  then have "distinct (concat (saved st))"
    and "set (concat (saved st)) \<inter> set (cumulativeTicks st) = {}"
    by simp_all
  moreover from window final have "last ticks \<in> set (cumulativeTicks st)"
    by (metis last_in_set)
  ultimately show ?thesis using part window by blast
qed

theorem prepareData_last_tick_not_saved_witness:
  "prepareData [0, 1, 2] gapTicks ([] :: unit Study list)
     = Inr \<lparr>tickStore = gapTicks
               (0 := [''timestamp'' \<mapsto> 0], 1 := [''timestamp'' \<mapsto> 60],
                2 := [''timestamp'' \<mapsto> 1000, ''testingGroups'' \<mapsto> 1,
                      ''validationGroups'' \<mapsto> 2]),
             cumulativeTicks = [2], studies = [], deleted = [0, 1], saved = [[0, 1]]\<rparr>
   \<and> [0, 1, 2 :: nat] \<noteq> []
   \<and> distinct [0, 1, 2 :: nat]
   \<and> last [0, 1, 2 :: nat] \<notin> set (concat [[0, 1]])"
proof -
  have run: "prepareData [0, 1, 2] gapTicks ([] :: unit Study list)
     = Inr \<lparr>tickStore = gapTicks
               (0 := [''timestamp'' \<mapsto> 0], 1 := [''timestamp'' \<mapsto> 60],
                2 := [''timestamp'' \<mapsto> 1000, ''testingGroups'' \<mapsto> 1,
                      ''validationGroups'' \<mapsto> 2]),
             cumulativeTicks = [2], studies = [], deleted = [0, 1], saved = [[0, 1]]\<rparr>"
    by (simp add: prepareData_def prepareTick_def gapCheck_def runStudies_def periodicSave_def
        saveTicks_def convertTickToBson_def subscript_def gapTicks_def Let_def)
  have ne: "[0, 1, 2 :: nat] \<noteq> []" by simp
  have d: "distinct [0, 1, 2 :: nat]" by simp
  from prepareData_last_tick_not_saved [OF run ne d] run ne d show ?thesis
    by simp
qed

subsection \<open>buildConfigurations\<close>

text \<open>
  The vector of results that \<open>buildMapConfigurations\<close> returns: one entry for every point of
  the product of the axes from \<open>optionIndex\<close> on, and every entry is the pointer \<open>current\<close>.
\<close>

lemma assignValues_results:
  "snd (snd (assignValues candidate current st)) = snd (snd st)"
  by (induction candidate current st rule: assignValues.induct) simp_all

lemma map_of_nth_key:
  assumes "distinct (map fst xs)" and "i < length xs"
  shows "map_of xs (fst (xs ! i)) = Some (snd (xs ! i))"
  using assms by (metis map_of_eq_Some_iff nth_mem prod.collapse)

lemma buildMapConfigurations_results:
  assumes d: "distinct (map fst options)"
  shows "optionIndex < length options \<Longrightarrow>
         buildMapConfigurations options optionIndex current st = Inr st' \<Longrightarrow>
         snd (snd st') = snd (snd st) @
           replicate (prod_list (map (\<lambda>axis. length (snd axis)) (drop optionIndex options))) current"
    and "optionIndex < length options \<Longrightarrow>
         forEachConfigurationOption options optionIndex current candidates st = Inr st' \<Longrightarrow>
         snd (snd st') = snd (snd st) @
           replicate (length candidates *
             prod_list (map (\<lambda>axis. length (snd axis)) (drop (Suc optionIndex) options))) current"
  using d
proof (induction options optionIndex current st and options optionIndex current candidates st
    arbitrary: st' and st' rule: buildMapConfigurations_forEachConfigurationOption.induct)
  case (1 options optionIndex current st)
  have look: "map_of options (fst (options ! optionIndex)) = Some (snd (options ! optionIndex))"
    using "1.prems" by (simp add: map_of_nth_key)
  from "1.prems" look have run:
    "forEachConfigurationOption options optionIndex current (snd (options ! optionIndex)) st = Inr st'"
    by (simp add: buildMapConfigurations.simps)
  have "snd (snd st') = snd (snd st) @
           replicate (length (snd (options ! optionIndex)) *
             prod_list (map (\<lambda>axis. length (snd axis)) (drop (Suc optionIndex) options))) current"
    using "1.IH" [OF refl _ refl refl] "1.prems" look run by simp
  moreover have "drop optionIndex options = options ! optionIndex # drop (Suc optionIndex) options"
    using "1.prems"(1) by (simp add: Cons_nth_drop_Suc)
  ultimately show ?case by simp
next
  case (2 options optionIndex current st)
  then show ?case by simp
next
  case (3 options optionIndex current candidate rest st)
  show ?case
  proof (cases "optionIndex + 1 < length (map fst options)")
    case True
    with "3.prems" obtain st1 where
      b: "buildMapConfigurations options (optionIndex + 1) current
            (assignValues candidate current st) = Inr st1"
      and f: "forEachConfigurationOption options optionIndex current rest st1 = Inr st'"
      by (auto split: sum.splits)
    from "3.IH"(1) [OF True _ b] True "3.prems" have
      "snd (snd st1) = snd (snd st) @
         replicate (prod_list (map (\<lambda>axis. length (snd axis)) (drop (Suc optionIndex) options))) current"
      by (simp add: assignValues_results)
    moreover from "3.IH"(2) [OF True b _ f] "3.prems" have
      "snd (snd st') = snd (snd st1) @
         replicate (length rest *
           prod_list (map (\<lambda>axis. length (snd axis)) (drop (Suc optionIndex) options))) current"
      by simp
    ultimately show ?thesis by (simp add: replicate_add [symmetric])
  next
    case False
    obtain self store results where a: "assignValues candidate current st = (self, store, results)"
      by (cases "assignValues candidate current st") auto
    with False "3.prems" have
      f: "forEachConfigurationOption options optionIndex current rest
            (self, store, results @ [current]) = Inr st'"
      by simp
    from a have r: "results = snd (snd st)"
      using assignValues_results [of candidate current st] by simp
    from False "3.prems"(1) have last: "drop (Suc optionIndex) options = []" by simp
    from "3.IH"(3) [OF False a [symmetric] refl "3.prems"(1) f "3.prems"(3)] have
      "snd (snd st') = (results @ [current]) @
         replicate (length rest *
           prod_list (map (\<lambda>axis. length (snd axis)) (drop (Suc optionIndex) options))) current"
      by simp
    with r last show ?thesis by (simp add: replicate_append_same)
  qed
qed

text \<open>
  Converting the same map configuration again gives the same configuration: the look-ups of
  the basic properties insert nothing the second time.
\<close>

lemma subscript_present:
  "m k \<noteq> None \<Longrightarrow> subscript m k = (the (m k), m)"
  by (auto simp: subscript_def)

lemma subscript_keeps:
  "m k' \<noteq> None \<Longrightarrow> snd (subscript m k) k' = m k'"
  by (auto simp: subscript_def split: option.splits)

lemma subscript_defined:
  "snd (subscript m k) k = Some (fst (subscript m k))"
  by (auto simp: subscript_def split: option.splits)

lemma basicProperties_again:
  "basicProperties (snd (basicProperties self)) = basicProperties self"
proof -
  define m1 where "m1 = snd (subscript (dataIndex self) ''timestamp'')"
  define m2 where "m2 = snd (subscript m1 ''open'')"
  define m3 where "m3 = snd (subscript m2 ''high'')"
  define m4 where "m4 = snd (subscript m3 ''low'')"
  define m5 where "m5 = snd (subscript m4 ''close'')"
  have t: "m5 ''timestamp'' = Some (fst (subscript (dataIndex self) ''timestamp''))"
    by (simp add: m5_def m4_def m3_def m2_def m1_def subscript_keeps subscript_defined)
  have "m5 ''open'' = Some (fst (subscript m1 ''open''))"
    by (simp add: m5_def m4_def m3_def m2_def subscript_keeps subscript_defined)
  moreover have "m5 ''high'' = Some (fst (subscript m2 ''high''))"
    by (simp add: m5_def m4_def m3_def subscript_keeps subscript_defined)
  moreover have "m5 ''low'' = Some (fst (subscript m3 ''low''))"
    by (simp add: m5_def m4_def subscript_keeps subscript_defined)
  moreover have "m5 ''close'' = Some (fst (subscript m4 ''close''))"
    by (simp add: m5_def subscript_defined)
  ultimately have
    "subscript m5 ''timestamp'' = (fst (subscript (dataIndex self) ''timestamp''), m5)"
    "subscript m5 ''open'' = (fst (subscript m1 ''open''), m5)"
    "subscript m5 ''high'' = (fst (subscript m2 ''high''), m5)"
    "subscript m5 ''low'' = (fst (subscript m3 ''low''), m5)"
    "subscript m5 ''close'' = (fst (subscript m4 ''close''), m5)"
    using t by (simp_all add: subscript_present)
  then show ?thesis
    by (simp add: basicProperties_def Let_def m1_def [symmetric] m2_def [symmetric]
        m3_def [symmetric] m4_def [symmetric] m5_def [symmetric])
qed

lemma convertMapConfiguration_again:
  assumes "convertMapConfiguration mapConfiguration self = Inr (configuration, self1)"
  shows "convertMapConfiguration mapConfiguration self1 = Inr (configuration, self1)"
proof -
  from assms have s: "self1 = snd (basicProperties self)"
    by (auto simp: convertMapConfiguration_def split: sum.splits)
  show ?thesis
    using assms unfolding s convertMapConfiguration_def basicProperties_again
    by (auto split: sum.splits)
qed

lemma convertMapConfigurations_same_pointer:
  assumes "convertMapConfiguration (store pointer) self = Inr (configuration, self)"
  shows "convertMapConfigurations (replicate n pointer) store acc self
           = Inr (acc @ replicate n configuration, self)"
  using assms
proof (induction n arbitrary: acc)
  case 0
  then show ?case by simp
next
  case (Suc n)
  then show ?case by (simp add: replicate_app_Cons_same)
qed

lemma convertMapConfigurations_replicate:
  assumes "convertMapConfigurations (replicate n pointer) store [] self = Inr (cfgs, self')"
  shows "length cfgs = n \<and> (\<exists>configuration. cfgs = replicate n configuration)"
proof (cases n)
  case 0
  with assms show ?thesis by simp
next
  case (Suc k)
  with assms obtain configuration self1 where
    c: "convertMapConfiguration (store pointer) self = Inr (configuration, self1)"
    and r: "convertMapConfigurations (replicate k pointer) store [configuration] self1
              = Inr (cfgs, self')"
    by (auto split: sum.splits)
  from convertMapConfigurations_same_pointer [where store = store and pointer = pointer
      and n = k and acc = "[configuration]", OF convertMapConfiguration_again [OF c]] r
  have "cfgs = configuration # replicate k configuration" by simp
  with Suc show ?thesis by auto
qed

text \<open>
  C1, for every option specification with at least one axis on which \<open>buildConfigurations\<close>
  returns: the number of configurations is the product of the axes' candidate counts, but the
  configurations are all the same one, since \<open>results\<close> holds the one pointer \<open>current\<close>
  that many times and the conversion reads the map it points to after the last assignment.
\<close>

theorem buildConfigurations_all_alike:
  assumes "distinct (map fst options)"
    and "options \<noteq> []"
    and "buildConfigurations options self = Inr (cfgs, self')"
  shows "length cfgs = prod_list (map (\<lambda>axis. length (snd axis)) options)
       \<and> (\<exists>configuration. cfgs = replicate (length cfgs) configuration)"
proof -
  from assms(3) obtain self1 store mapConfigurations where
    b: "buildMapConfigurations options 0 0 (self, (\<lambda>pointer. Map.empty), [])
          = Inr (self1, store, mapConfigurations)"
    and c: "convertMapConfigurations mapConfigurations store [] self1 = Inr (cfgs, self')"
    by (auto simp: buildConfigurations_def split: sum.splits)
  from assms(2) have "0 < length options" by simp
  from buildMapConfigurations_results(1) [OF assms(1) this b]
  have m: "mapConfigurations
             = replicate (prod_list (map (\<lambda>axis. length (snd axis)) options)) 0"
    by simp
  from convertMapConfigurations_replicate [OF c [unfolded m]] show ?thesis
    by auto
qed


theorem buildConfigurations_all_alike_witness:
  "distinct (map fst thresholdOptions)
   \<and> thresholdOptions \<noteq> []
   \<and> buildConfigurations thresholdOptions newOptimizer
       = Inr (replicate 4 (newConfiguration\<lparr>rsiOverbought := 80, rsiOversold := 30\<rparr>),
              newOptimizer\<lparr>dataIndex := [''timestamp'' \<mapsto> 0, ''open'' \<mapsto> 0, ''high'' \<mapsto> 0,
                                           ''low'' \<mapsto> 0, ''close'' \<mapsto> 0]\<rparr>)
   \<and> length (replicate 4 (newConfiguration\<lparr>rsiOverbought := 80, rsiOversold := 30\<rparr>))
       = prod_list (map (\<lambda>axis. length (snd axis)) thresholdOptions)"
proof -
  have d: "distinct (map fst thresholdOptions)"
    by (simp add: thresholdOptions_def)
  have ne: "thresholdOptions \<noteq> []"
    by (simp add: thresholdOptions_def)
  have run: "buildConfigurations thresholdOptions newOptimizer
       = Inr (replicate 4 (newConfiguration\<lparr>rsiOverbought := 80, rsiOversold := 30\<rparr>),
              newOptimizer\<lparr>dataIndex := [''timestamp'' \<mapsto> 0, ''open'' \<mapsto> 0, ''high'' \<mapsto> 0,
                                           ''low'' \<mapsto> 0, ''close'' \<mapsto> 0]\<rparr>)"
    by (simp add: buildConfigurations_def thresholdOptions_def newOptimizer_def
        buildMapConfigurations.simps convertMapConfiguration_def basicProperties_def
        setInt_def setDouble_def subscript_def newConfiguration_def Let_def
        eval_nat_numeral)
  from buildConfigurations_all_alike [OF d ne run] d ne run show ?thesis
    by simp
qed

subsection \<open>Column references\<close>

lemma buildMapConfigurations_returns:
  shows "optionIndex < length options \<Longrightarrow>
         \<exists>st'. buildMapConfigurations options optionIndex current st = Inr st'"
    and "\<exists>st'. forEachConfigurationOption options optionIndex current candidates st = Inr st'"
proof (induction options optionIndex current st and options optionIndex current candidates st
    rule: buildMapConfigurations_forEachConfigurationOption.induct)
  case (1 options optionIndex current st)
  from "1.IH" [OF refl _ refl refl] "1.prems" show ?case
    by (simp add: buildMapConfigurations.simps)
next
  case (2 options optionIndex current st)
  show ?case by (rule exI [of _ st]) simp
next
  case (3 options optionIndex current candidate rest st)
  show ?case
  proof (cases "optionIndex + 1 < length (map fst options)")
    case True
    with "3.IH"(1) [OF True] obtain st1 where
      b: "buildMapConfigurations options (optionIndex + 1) current
            (assignValues candidate current st) = Inr st1"
      by auto
    from "3.IH"(2) [OF True b] True b show ?thesis by simp
  next
    case False
    obtain self store results where a: "assignValues candidate current st = (self, store, results)"
      by (cases "assignValues candidate current st") auto
    from "3.IH"(3) [OF False a [symmetric] refl] False a show ?thesis by simp
  qed
qed

lemma subscript_after:
  "fst (subscript (snd (subscript m k)) k') = fst (subscript m k')"
  by (simp add: subscript_def split: option.splits)

lemma assignValues_other_key:
  "key \<notin> fst ` set candidate \<Longrightarrow>
   fst (snd (assignValues candidate current st)) current key = fst (snd st) current key"
  by (induction candidate current st rule: assignValues.induct) auto

lemma assignValues_resolves:
  "distinct (map fst candidate) \<Longrightarrow> (key, StringValue name) \<in> set candidate \<Longrightarrow>
   fst (snd (assignValues candidate current (self, store, results))) current key
     = Some (IntEntry (fst (subscript (dataIndex self) name)))"
proof (induction candidate arbitrary: self store)
  case Nil
  then show ?case by simp
next
  case (Cons entry candidate)
  obtain k v where e: "entry = (k, v)" by (cases entry)
  from Cons.prems e have d: "distinct (map fst candidate)" and k: "k \<notin> fst ` set candidate"
    by auto
  show ?case
  proof (cases "(key, StringValue name) = entry")
    case True
    with e have "k = key" and "v = StringValue name" by auto
    with e k show ?thesis
      by (simp add: assignValues_other_key)
  next
    case False
    with Cons.prems have m: "(key, StringValue name) \<in> set candidate" by simp
    show ?thesis
    proof (cases v)
      case (StringValue other)
      with e Cons.IH [OF d m] show ?thesis by (simp add: subscript_after)
    next
      case (DoubleValue literal)
      with e Cons.IH [OF d m] show ?thesis by simp
    qed
  qed
qed


text \<open>
  C3, as amended. Building never fails on a column reference: \<open>buildMapConfigurations\<close>
  returns for every index of an axis, and the loop over a candidate's values writes, for a
  column name, the position that \<open>dataIndex\<close> holds for the name, or 0 when \<open>dataIndex\<close> has
  no entry for it.
\<close>

theorem buildMapConfigurations_unresolved_is_zero:
  "(optionIndex < length options \<longrightarrow>
      (\<exists>st'. buildMapConfigurations options optionIndex current st = Inr st'))
   \<and> (distinct (map fst candidate) \<and> (key, StringValue name) \<in> set candidate \<longrightarrow>
        fst (snd (assignValues candidate current (self, store, results))) current key
          = Some (IntEntry (case dataIndex self name of Some i \<Rightarrow> i | None \<Rightarrow> 0)))"
proof (intro conjI impI)
  assume "optionIndex < length options"
  then show "\<exists>st'. buildMapConfigurations options optionIndex current st = Inr st'"
    by (rule buildMapConfigurations_returns(1))
next
  assume "distinct (map fst candidate) \<and> (key, StringValue name) \<in> set candidate"
  then have "fst (snd (assignValues candidate current (self, store, results))) current key
     = Some (IntEntry (fst (subscript (dataIndex self) name)))"
    by (simp add: assignValues_resolves)
  then show "fst (snd (assignValues candidate current (self, store, results))) current key
          = Some (IntEntry (case dataIndex self name of Some i \<Rightarrow> i | None \<Rightarrow> 0))"
    by (simp add: subscript_def split: option.splits)
qed

theorem buildMapConfigurations_unresolved_is_zero_witness:
  "0 < length (rsiOptions ''rsi7'')
   \<and> (\<exists>st'. buildMapConfigurations (rsiOptions ''rsi7'') 0 0
               (sixColumns, (\<lambda>pointer. Map.empty), []) = Inr st')
   \<and> distinct (map fst [(''rsi'', StringValue ''rsi7'')])
   \<and> (''rsi'', StringValue ''rsi7'') \<in> set [(''rsi'', StringValue ''rsi7'')]
   \<and> fst (snd (assignValues [(''rsi'', StringValue ''rsi7'')] 0
               (sixColumns, (\<lambda>pointer. Map.empty), []))) 0 ''rsi'' = Some (IntEntry 0)
   \<and> distinct (map fst [(''rsi'', StringValue ''rsi5'')])
   \<and> (''rsi'', StringValue ''rsi5'') \<in> set [(''rsi'', StringValue ''rsi5'')]
   \<and> fst (snd (assignValues [(''rsi'', StringValue ''rsi5'')] 0
               (sixColumns, (\<lambda>pointer. Map.empty), []))) 0 ''rsi'' = Some (IntEntry 5)"
proof -
  have i: "0 < length (rsiOptions ''rsi7'')"
    by (simp add: rsiOptions_def)
  have c7: "distinct (map fst [(''rsi'', StringValue ''rsi7'')])
            \<and> (''rsi'', StringValue ''rsi7'') \<in> set [(''rsi'', StringValue ''rsi7'')]"
    by simp
  have c5: "distinct (map fst [(''rsi'', StringValue ''rsi5'')])
            \<and> (''rsi'', StringValue ''rsi5'') \<in> set [(''rsi'', StringValue ''rsi5'')]"
    by simp
  note t7 = buildMapConfigurations_unresolved_is_zero
    [where optionIndex = 0 and options = "rsiOptions ''rsi7''" and current = 0
       and st = "(sixColumns, (\<lambda>pointer. Map.empty), [])"
       and candidate = "[(''rsi'', StringValue ''rsi7'')]" and key = "''rsi''"
       and name = "''rsi7''" and self = sixColumns and store = "\<lambda>pointer. Map.empty"
       and results = "[]"]
  note t5 = buildMapConfigurations_unresolved_is_zero
    [where optionIndex = 0 and options = "rsiOptions ''rsi7''" and current = 0
       and st = "(sixColumns, (\<lambda>pointer. Map.empty), [])"
       and candidate = "[(''rsi'', StringValue ''rsi5'')]" and key = "''rsi''"
       and name = "''rsi5''" and self = sixColumns and store = "\<lambda>pointer. Map.empty"
       and results = "[]"]
  from t7 i c7 have r7: "(\<exists>st'. buildMapConfigurations (rsiOptions ''rsi7'') 0 0
               (sixColumns, (\<lambda>pointer. Map.empty), []) = Inr st')
     \<and> fst (snd (assignValues [(''rsi'', StringValue ''rsi7'')] 0
               (sixColumns, (\<lambda>pointer. Map.empty), []))) 0 ''rsi''
         = Some (IntEntry (case dataIndex sixColumns ''rsi7'' of Some i \<Rightarrow> i | None \<Rightarrow> 0))"
    by blast
  from t5 c5 have r5: "fst (snd (assignValues [(''rsi'', StringValue ''rsi5'')] 0
               (sixColumns, (\<lambda>pointer. Map.empty), []))) 0 ''rsi''
         = Some (IntEntry (case dataIndex sixColumns ''rsi5'' of Some i \<Rightarrow> i | None \<Rightarrow> 0))"
    by blast
  have "dataIndex sixColumns ''rsi7'' = None" and "dataIndex sixColumns ''rsi5'' = Some 5"
    by (simp_all add: sixColumns_def)
  with r7 r5 i c7 c5 show ?thesis by simp
qed

text \<open>
  C3, as stated, fails: \<open>dataIndex\<close> has no entry for the column name \<open>rsi7\<close>, and
  \<open>buildConfigurations\<close> returns a configuration whose \<open>rsi\<close> is 0, the position of the
  timestamp column; the name has been added to \<open>dataIndex\<close> with that position.
\<close>

theorem buildConfigurations_unresolved_reference:
  "dataIndex sixColumns ''rsi7'' = None
   \<and> buildConfigurations (rsiOptions ''rsi7'') sixColumns
       = Inr ([newConfiguration\<lparr>open_column := 1, high := 2, low := 3, close_column := 4,
                                 rsi := 0\<rparr>],
              sixColumns\<lparr>dataIndex := (dataIndex sixColumns)(''rsi7'' \<mapsto> 0)\<rparr>)"
  by (simp add: buildConfigurations_def rsiOptions_def sixColumns_def
      buildMapConfigurations.simps convertMapConfiguration_def basicProperties_def
      setInt_def setDouble_def subscript_def newConfiguration_def Let_def)

end
